theory Spec2Isabelle
  imports Complex_Main "HOL-Library.Sublist"
begin

section \<open>JavaScript values\<close>

text \<open>
  The extension is JavaScript. Strings are held as lists of bytes: ASCII text as it is
  written in the source, other characters (the emoji that open the user messages, the
  dash of the image hint) in their UTF-8 encoding. No function below takes the length of
  such a text, and a search for an ASCII pattern gives the same answer on the bytes as
  on UTF-16 code units.
\<close>

text \<open>
  A value produced by \<^verbatim>\<open>JSON.parse\<close> (and taken by \<^verbatim>\<open>JSON.stringify\<close>). A number
  is held as the text \<^verbatim>\<open>String(n)\<close> gives for it, so \<open>0\<close> and \<open>-0\<close> are both \<open>''0''\<close>; the
  code only tests numbers for truth and renders them. An object holds its members in
  the order of the text; a repeated name is looked up at its last occurrence.
\<close>

datatype json =
    JNull
  | JBool bool
  | JNum string
  | JStr string
  | JArr "json list"
  | JObj "(string \<times> json) list"

datatype jsval = Undefined | Val json

fun truthy :: "jsval \<Rightarrow> bool" where
  "truthy Undefined = False"
| "truthy (Val JNull) = False"
| "truthy (Val (JBool b)) = b"
| "truthy (Val (JNum r)) = (r \<noteq> ''0'')"
| "truthy (Val (JStr s)) = (s \<noteq> [])"
| "truthy (Val (JArr xs)) = True"
| "truthy (Val (JObj kvs)) = True"

fun join :: "string \<Rightarrow> string list \<Rightarrow> string" where
  "join sep [] = []"
| "join sep [x] = x"
| "join sep (x # y # ys) = x @ sep @ join sep (y # ys)"

text \<open>
  The text kept here for a value that is only logged (the \<open>debugInfo\<close> of an error
  object, which no code converts): a string as it is, any other value in its default
  rendering.
\<close>

fun log_text :: "json \<Rightarrow> string" where
  "log_text JNull = ''null''"
| "log_text (JBool b) = (if b then ''true'' else ''false'')"
| "log_text (JNum r) = r"
| "log_text (JStr s) = s"
| "log_text (JArr xs) = join '','' (map (\<lambda>x. if x = JNull then [] else log_text x) xs)"
| "log_text (JObj kvs) = ''[object Object]''"

fun text_of :: "jsval \<Rightarrow> string" where
  "text_of Undefined = ''undefined''"
| "text_of (Val j) = log_text j"

text \<open>\<^verbatim>\<open>a || b\<close> where \<open>b\<close> is a string, rendered as text.\<close>

definition or_text :: "jsval \<Rightarrow> string \<Rightarrow> string" where
  "or_text v d = (if truthy v then text_of v else d)"

text \<open>
  The string conversion that \<^verbatim>\<open>new Error(x)\<close> and a template literal perform; \<open>None\<close>
  when it throws a \<open>TypeError\<close>. A parsed object converts through
  \<^verbatim>\<open>Object.prototype.toString\<close> to \<^verbatim>\<open>[object Object]\<close>, unless it has a member of its own
  named \<open>toString\<close>: that member is no function, \<^verbatim>\<open>valueOf\<close> gives no primitive either,
  and the conversion throws. An array converts to its elements joined by commas, null
  as the empty text, and throws when an element does.
\<close>

fun ToString :: "json \<Rightarrow> string option" where
  "ToString JNull = Some ''null''"
| "ToString (JBool b) = Some (if b then ''true'' else ''false'')"
| "ToString (JNum r) = Some r"
| "ToString (JStr s) = Some s"
| "ToString (JArr xs) =
     map_option (join '','') (those (map (\<lambda>x. if x = JNull then Some [] else ToString x) xs))"
| "ToString (JObj kvs) =
     (if ''toString'' \<in> set (map fst kvs) then None else Some ''[object Object]'')"

fun to_string :: "jsval \<Rightarrow> string option" where
  "to_string Undefined = Some ''undefined''"
| "to_string (Val j) = ToString j"

text \<open>\<^verbatim>\<open>s.includes(pat)\<close>\<close>

fun str_includes :: "string \<Rightarrow> string \<Rightarrow> bool" where
  "str_includes [] pat = (pat = [])"
| "str_includes (c # cs) pat = (prefix pat (c # cs) \<or> str_includes cs pat)"

text \<open>A status code in decimal, as a template literal renders it.\<close>

fun show_nat :: "nat \<Rightarrow> string" where
  "show_nat n = (if n < 10 then [''0123456789'' ! n]
                 else show_nat (n div 10) @ [''0123456789'' ! (n mod 10)])"

declare show_nat.simps [simp del]

subsection \<open>Member access\<close>

datatype key = Name string | Index nat

text \<open>
  \<open>member_of v k\<close> is \<^verbatim>\<open>v[k]\<close> for a value \<open>v\<close> that is not null. The names the adapters
  read (\<open>content\<close>, \<open>text\<close>, \<open>choices\<close>, \<open>message\<close>, \<open>candidates\<close>, \<open>parts\<close>, \<open>error\<close>) are
  members of no built-in prototype, so on an array, a string, a number or a boolean
  they are undefined. An index into a string gives the one-unit string at that place.
\<close>

fun lookup_last :: "(string \<times> json) list \<Rightarrow> string \<Rightarrow> jsval" where
  "lookup_last [] n = Undefined"
| "lookup_last ((k, v) # kvs) n =
     (case lookup_last kvs n of
        Val w \<Rightarrow> Val w
      | Undefined \<Rightarrow> if k = n then Val v else Undefined)"

fun member_of :: "json \<Rightarrow> key \<Rightarrow> jsval" where
  "member_of (JObj kvs) (Name n) = lookup_last kvs n"
| "member_of (JObj kvs) (Index i) = lookup_last kvs (show_nat i)"
| "member_of (JArr xs) (Index i) = (if i < length xs then Val (xs ! i) else Undefined)"
| "member_of (JStr s) (Index i) = (if i < length s then Val (JStr [s ! i]) else Undefined)"
| "member_of v k = Undefined"

text \<open>\<^verbatim>\<open>v?.[k]\<close> and \<^verbatim>\<open>v?.k\<close>: undefined when \<open>v\<close> is undefined or null.\<close>

fun opt_chain :: "jsval \<Rightarrow> key \<Rightarrow> jsval" where
  "opt_chain Undefined k = Undefined"
| "opt_chain (Val JNull) k = Undefined"
| "opt_chain (Val v) k = member_of v k"

section \<open>Errors\<close>

text \<open>The constants \<^verbatim>\<open>ERROR_TYPES\<close> and \<^verbatim>\<open>USER_MESSAGES\<close> of popup.js.\<close>

datatype error_kind =
    NETWORK_ERROR | UNAUTHORIZED | RATE_LIMIT | SERVER_ERROR | TIMEOUT
  | INVALID_RESPONSE | CONTENT_EXTRACTION_FAILED | UNKNOWN

fun ERROR_TYPES :: "error_kind \<Rightarrow> string" where
  "ERROR_TYPES NETWORK_ERROR = ''network_error''"
| "ERROR_TYPES UNAUTHORIZED = ''unauthorized''"
| "ERROR_TYPES RATE_LIMIT = ''rate_limit''"
| "ERROR_TYPES SERVER_ERROR = ''server_error''"
| "ERROR_TYPES TIMEOUT = ''timeout''"
| "ERROR_TYPES INVALID_RESPONSE = ''invalid_response''"
| "ERROR_TYPES CONTENT_EXTRACTION_FAILED = ''content_extraction_failed''"
| "ERROR_TYPES UNKNOWN = ''unknown''"

definition cross_mark :: string where
  "cross_mark = [CHR 0xE2, CHR 0x9D, CHR 0x8C]"

fun USER_MESSAGES :: "error_kind \<Rightarrow> string" where
  "USER_MESSAGES NETWORK_ERROR =
     [CHR 0xF0, CHR 0x9F, CHR 0x8C, CHR 0x90] @
     '' Network error: Please check your internet connection.''"
| "USER_MESSAGES UNAUTHORIZED =
     [CHR 0xF0, CHR 0x9F, CHR 0x94, CHR 0x91] @
     '' Invalid API key. Please update your API key in the extension settings.''"
| "USER_MESSAGES RATE_LIMIT =
     [CHR 0xE2, CHR 0x8F, CHR 0xB1, CHR 0xEF, CHR 0xB8, CHR 0x8F] @
     '' Rate limited: Too many requests. Please try again in a few moments.''"
| "USER_MESSAGES SERVER_ERROR =
     [CHR 0xF0, CHR 0x9F, CHR 0x94, CHR 0xA7] @
     '' AI service temporarily unavailable. Please try again later.''"
| "USER_MESSAGES TIMEOUT =
     [CHR 0xE2, CHR 0x8F, CHR 0xB3] @ '' Request timed out. Please try again.''"
| "USER_MESSAGES INVALID_RESPONSE =
     [CHR 0xE2, CHR 0x9A, CHR 0xA0, CHR 0xEF, CHR 0xB8, CHR 0x8F] @
     '' Unexpected response from AI service. Please try again.''"
| "USER_MESSAGES CONTENT_EXTRACTION_FAILED =
     ''Could not extract content from this page. Try a different page.''"
| "USER_MESSAGES UNKNOWN =
     cross_mark @ '' An unexpected error occurred. Please try again.''"

text \<open>The message of the 404 branch of \<^verbatim>\<open>classifyError\<close>.\<close>

definition model_not_found_message :: string where
  "model_not_found_message =
     [CHR 0xF0, CHR 0x9F, CHR 0x94, CHR 0x8D] @
     '' AI model not found. The selected model may not be available for your API key.''"

text \<open>The structured error object \<^verbatim>\<open>{type, userMessage, debugInfo}\<close>.\<close>

record canonical_error =
  type :: string
  userMessage :: string
  debugInfo :: string

text \<open>
  What a \<^verbatim>\<open>catch\<close> clause can receive: a \<^verbatim>\<open>TypeError\<close> with its message (its name is
  \<open>TypeError\<close>); any other exception object with its name and message (the
  \<open>AbortError\<close> of an aborted fetch, the \<open>SyntaxError\<close> of \<^verbatim>\<open>response.json()\<close>, a plain
  \<open>Error\<close>); the plain object \<^verbatim>\<open>{httpStatus, message}\<close> an adapter throws; a structured
  error object.
\<close>

datatype thrown =
    TypeError string
  | OtherError string string
  | HttpFailure nat jsval
  | Classified canonical_error

fun instanceof_TypeError :: "thrown \<Rightarrow> bool" where
  "instanceof_TypeError (TypeError m) = True"
| "instanceof_TypeError e = False"

fun name_of :: "thrown \<Rightarrow> jsval" where
  "name_of (TypeError m) = Val (JStr ''TypeError'')"
| "name_of (OtherError n m) = Val (JStr n)"
| "name_of e = Undefined"

fun message_of :: "thrown \<Rightarrow> jsval" where
  "message_of (TypeError m) = Val (JStr m)"
| "message_of (OtherError n m) = Val (JStr m)"
| "message_of (HttpFailure s m) = m"
| "message_of (Classified c) = Undefined"

fun httpStatus_of :: "thrown \<Rightarrow> nat option" where
  "httpStatus_of (HttpFailure s m) = Some s"
| "httpStatus_of e = None"

section \<open>The error classifier\<close>

text \<open>
  \<^verbatim>\<open>classifyError(error, httpStatus = null)\<close> of popup.js. \<open>None\<close> is a null status; the
  test \<^verbatim>\<open>if (httpStatus)\<close> also fails for the status 0. \<open>debugInfo\<close> is only logged; the
  model holds its text.
\<close>

definition classifyError :: "thrown \<Rightarrow> nat option \<Rightarrow> canonical_error" where
  "classifyError error httpStatus =
    (let unknown = \<lparr>type = ERROR_TYPES UNKNOWN,
                     userMessage = USER_MESSAGES UNKNOWN,
                     debugInfo = or_text (message_of error) ''Unknown error occurred''\<rparr>
     in
     if instanceof_TypeError error \<and>
        (str_includes (text_of (message_of error)) ''Failed to fetch'' \<or>
         str_includes (text_of (message_of error)) ''fetch'')
     then \<lparr>type = ERROR_TYPES NETWORK_ERROR,
           userMessage = USER_MESSAGES NETWORK_ERROR,
           debugInfo = text_of (message_of error)\<rparr>
     else if name_of error = Val (JStr ''AbortError'')
     then \<lparr>type = ERROR_TYPES TIMEOUT,
           userMessage = USER_MESSAGES TIMEOUT,
           debugInfo = ''Request aborted due to timeout''\<rparr>
     else case httpStatus of
       None \<Rightarrow> unknown
     | Some s \<Rightarrow>
         if s = 0 then unknown
         else if s = 400 \<or> s = 401 \<or> s = 403
         then \<lparr>type = ERROR_TYPES UNAUTHORIZED,
               userMessage = USER_MESSAGES UNAUTHORIZED,
               debugInfo = ''HTTP '' @ show_nat s @ '': Unauthorized / Bad API key''\<rparr>
         else if s = 429
         then \<lparr>type = ERROR_TYPES RATE_LIMIT,
               userMessage = USER_MESSAGES RATE_LIMIT,
               debugInfo = ''HTTP 429: Rate limit exceeded''\<rparr>
         else if s = 404
         then \<lparr>type = ERROR_TYPES UNKNOWN,
               userMessage = model_not_found_message,
               debugInfo = ''HTTP 404: Model not found''\<rparr>
         else if s \<ge> 500
         then \<lparr>type = ERROR_TYPES SERVER_ERROR,
               userMessage = USER_MESSAGES SERVER_ERROR,
               debugInfo = ''HTTP '' @ show_nat s @ '': Server error''\<rparr>
         else unknown)"

section \<open>The network\<close>

text \<open>
  A call of \<^verbatim>\<open>fetch\<close>: the POST of an adapter, with its URL, headers and JSON body and
  with the abort signal of the dispatch attached, or the plain GET of a page image.
\<close>

datatype request =
    Post string "(string \<times> string) list" json
  | Get string

text \<open>
  What the adapter's request meets. \<^verbatim>\<open>fetch\<close> rejects (a \<open>TypeError\<close> when the server
  cannot be reached, an \<open>AbortError\<close> when the signal fires before the response) or
  resolves to a response with a status; \<^verbatim>\<open>response.json()\<close> then gives the parsed body
  or throws (a \<open>SyntaxError\<close> for a body that is no JSON, an \<open>AbortError\<close> when the
  signal fires while the body is read).
\<close>

datatype body = BodyFails thrown | Json json

datatype fetch_result = Rejects thrown | Responds nat body

definition ok :: "nat \<Rightarrow> bool" where
  "ok status = (200 \<le> status \<and> status \<le> 299)"

text \<open>
  What the fetch of one page image does: \<^verbatim>\<open>fetch\<close> throws, or answers with a status;
  \<^verbatim>\<open>response.blob()\<close> throws or gives a blob with its type; the \<^verbatim>\<open>FileReader\<close> fails or
  loads its result, the data URL of the blob (\<^verbatim>\<open>data:image/png;base64,iVBOR...\<close>; for an
  empty blob Chrome gives \<^verbatim>\<open>data:\<close> alone).
\<close>

datatype reader_result = ReaderError | Loaded string

datatype blob_result = BlobFails | Blob string reader_result

datatype image_response = FetchThrows | ImageResponds nat blob_result

text \<open>
  The network as one dispatch meets it: the answer to the adapter's request, and the
  answer to the fetch of each image URL (a URL that is not listed cannot be fetched).
\<close>

record network =
  main :: fetch_result
  image_at :: "(string \<times> image_response) list"

definition fetch_image :: "network \<Rightarrow> string \<Rightarrow> image_response" where
  "fetch_image net u = (case map_of (image_at net) u of None \<Rightarrow> FetchThrows | Some r \<Rightarrow> r)"

section \<open>Requests\<close>

record image =
  url :: string
  alt :: string

datatype summary_type = brief | detailed | technical

fun prompts :: "summary_type \<Rightarrow> string" where
  "prompts brief =
     ''Summarize this article in 2-3 clear sentences. Focus on the main point.''"
| "prompts detailed =
     ''Provide a detailed summary with key points as bullet points. Include main arguments and conclusions.''"
| "prompts technical =
     ''Summarize this technical documentation. Include: purpose, key concepts, important functions/methods, and usage notes.''"

definition nl :: string where
  "nl = [CHR 0x0A]"

definition image_hint :: string where
  "image_hint =
     '' The user has provided page images '' @ [CHR 0xE2, CHR 0x80, CHR 0x94] @
     '' use them to enrich your summary where relevant.''"

definition systemPrompt :: "image list \<Rightarrow> string" where
  "systemPrompt images =
     ''You are a helpful assistant that summarizes web content clearly and concisely.'' @
     (if length images > 0 then image_hint else [])"

definition userPrompt :: "summary_type \<Rightarrow> string \<Rightarrow> string \<Rightarrow> string" where
  "userPrompt ty title content =
     prompts ty @ nl @ nl @ ''Title: '' @ title @ nl @ nl @ ''Content:'' @ nl @ content"

text \<open>
  The messages of the \<open>TypeError\<close> that reading a member of null or of undefined
  raises, and the \<open>TypeError\<close> of a string conversion that throws.
\<close>

definition null_read :: "string \<Rightarrow> string" where
  "null_read n = ''Cannot read properties of null (reading '' @ [CHR 0x27] @ n @ [CHR 0x27] @ '')''"

definition undefined_read :: "string \<Rightarrow> string" where
  "undefined_read n =
     ''Cannot read properties of undefined (reading '' @ [CHR 0x27] @ n @ [CHR 0x27] @ '')''"

text \<open>\<^verbatim>\<open>v?.k1?.k2 ...\<close>: a chain of optional accesses.\<close>

definition chain :: "jsval \<Rightarrow> key list \<Rightarrow> jsval" where
  "chain v ks = foldl opt_chain v ks"

section \<open>The provider adapters\<close>

text \<open>
  Each adapter's \<^verbatim>\<open>generateSummary(apiKey, content, type, title, signal, images)\<close> is
  modelled as a function of the network: it gives what the call returns or throws, and
  the requests it issued, in order. Console logging is left out.
\<close>

subsection \<open>Claude\<close>

definition Claude_apiEndpoint :: string where
  "Claude_apiEndpoint = ''https://api.anthropic.com/v1/messages''"

definition Claude_defaultModel :: string where
  "Claude_defaultModel = ''claude-sonnet-4-6''"

definition Claude_userContent :: "summary_type \<Rightarrow> string \<Rightarrow> string \<Rightarrow> image list \<Rightarrow> json" where
  "Claude_userContent ty title content images =
     (if length images > 0
      then JArr (JObj [(''type'', JStr ''text''), (''text'', JStr (userPrompt ty title content))] #
                 map (\<lambda>img. JObj [(''type'', JStr ''image''),
                                   (''source'', JObj [(''type'', JStr ''url''),
                                                      (''url'', JStr (url img))])]) images)
      else JStr (userPrompt ty title content))"

definition Claude_request ::
  "string \<Rightarrow> string \<Rightarrow> summary_type \<Rightarrow> string \<Rightarrow> image list \<Rightarrow> request" where
  "Claude_request apiKey content ty title images =
     Post Claude_apiEndpoint
       [(''Content-Type'', ''application/json''),
        (''x-api-key'', apiKey),
        (''anthropic-version'', ''2023-06-01''),
        (''anthropic-dangerous-direct-browser-access'', ''true'')]
       (JObj [(''model'', JStr Claude_defaultModel),
              (''max_tokens'', JNum ''1000''),
              (''messages'', JArr [JObj [(''role'', JStr ''user''),
                                         (''content'', Claude_userContent ty title content images)]]),
              (''system'', JStr (systemPrompt images)),
              (''temperature'', JNum ''0.5'')])"

text \<open>
  The \<^verbatim>\<open>apiErrorMessage\<close> of the Claude and OpenAI adapters: null at first, then
  \<^verbatim>\<open>errorData.error?.message\<close> inside a \<^verbatim>\<open>try\<close> whose \<^verbatim>\<open>catch\<close> only logs (a body that
  does not parse, or parses to null, leaves the message null).
\<close>

definition apiErrorMessage :: "body \<Rightarrow> jsval" where
  "apiErrorMessage b =
     (case b of
        BodyFails e \<Rightarrow> Val JNull
      | Json JNull \<Rightarrow> Val JNull
      | Json errorData \<Rightarrow> chain (member_of errorData (Name ''error'')) [Name ''message''])"

definition Claude_response :: "fetch_result \<Rightarrow> thrown + jsval" where
  "Claude_response r =
     (case r of
        Rejects e \<Rightarrow> Inl e
      | Responds status b \<Rightarrow>
          if \<not> ok status then Inl (HttpFailure status (apiErrorMessage b))
          else (case b of
                  BodyFails e \<Rightarrow> Inl e
                | Json JNull \<Rightarrow> Inl (TypeError (null_read ''content''))
                | Json data \<Rightarrow>
                    let text = chain (member_of data (Name ''content'')) [Index 0, Name ''text'']
                    in if \<not> truthy text
                       then Inl (HttpFailure 500 (Val (JStr ''Invalid response structure from Claude'')))
                       else Inr text))"

definition ClaudeProvider_generateSummary ::
  "network \<Rightarrow> string \<Rightarrow> string \<Rightarrow> summary_type \<Rightarrow> string \<Rightarrow> image list
     \<Rightarrow> (thrown + jsval) \<times> request list" where
  "ClaudeProvider_generateSummary net apiKey content ty title images =
     (Claude_response (main net), [Claude_request apiKey content ty title images])"

subsection \<open>OpenAI\<close>

definition OpenAI_apiEndpoint :: string where
  "OpenAI_apiEndpoint = ''https://api.openai.com/v1/chat/completions''"

definition OpenAI_defaultModel :: string where
  "OpenAI_defaultModel = ''gpt-4o-mini''"

definition OpenAI_userContent :: "summary_type \<Rightarrow> string \<Rightarrow> string \<Rightarrow> image list \<Rightarrow> json" where
  "OpenAI_userContent ty title content images =
     (if length images > 0
      then JArr (JObj [(''type'', JStr ''text''), (''text'', JStr (userPrompt ty title content))] #
                 map (\<lambda>img. JObj [(''type'', JStr ''image_url''),
                                   (''image_url'', JObj [(''url'', JStr (url img)),
                                                         (''detail'', JStr ''low'')])]) images)
      else JStr (userPrompt ty title content))"

definition OpenAI_request ::
  "string \<Rightarrow> string \<Rightarrow> summary_type \<Rightarrow> string \<Rightarrow> image list \<Rightarrow> request" where
  "OpenAI_request apiKey content ty title images =
     Post OpenAI_apiEndpoint
       [(''Content-Type'', ''application/json''),
        (''Authorization'', ''Bearer '' @ apiKey)]
       (JObj [(''model'', JStr OpenAI_defaultModel),
              (''messages'', JArr [JObj [(''role'', JStr ''system''),
                                         (''content'', JStr (systemPrompt images))],
                                   JObj [(''role'', JStr ''user''),
                                         (''content'', OpenAI_userContent ty title content images)]]),
              (''max_tokens'', JNum ''1000''),
              (''temperature'', JNum ''0.5'')])"

definition OpenAI_response :: "fetch_result \<Rightarrow> thrown + jsval" where
  "OpenAI_response r =
     (case r of
        Rejects e \<Rightarrow> Inl e
      | Responds status b \<Rightarrow>
          if \<not> ok status then Inl (HttpFailure status (apiErrorMessage b))
          else (case b of
                  BodyFails e \<Rightarrow> Inl e
                | Json JNull \<Rightarrow> Inl (TypeError (null_read ''choices''))
                | Json data \<Rightarrow>
                    let text = chain (member_of data (Name ''choices''))
                                 [Index 0, Name ''message'', Name ''content'']
                    in if \<not> truthy text
                       then Inl (HttpFailure 500 (Val (JStr ''Invalid response structure from OpenAI'')))
                       else Inr text))"

definition OpenAIProvider_generateSummary ::
  "network \<Rightarrow> string \<Rightarrow> string \<Rightarrow> summary_type \<Rightarrow> string \<Rightarrow> image list
     \<Rightarrow> (thrown + jsval) \<times> request list" where
  "OpenAIProvider_generateSummary net apiKey content ty title images =
     (OpenAI_response (main net), [OpenAI_request apiKey content ty title images])"

subsection \<open>Gemini\<close>

definition Gemini_apiEndpoint :: string where
  "Gemini_apiEndpoint = ''https://generativelanguage.googleapis.com/v1beta/models''"

definition Gemini_defaultModel :: string where
  "Gemini_defaultModel = ''gemini-2.0-flash''"

text \<open>\<^verbatim>\<open>s.split(",")\<close>\<close>

fun split_commas :: "string \<Rightarrow> string list" where
  "split_commas [] = [[]]"
| "split_commas (c # cs) =
     (if c = CHR '','' then [] # split_commas cs
      else (case split_commas cs of
              [] \<Rightarrow> [[c]]
            | piece # pieces \<Rightarrow> (c # piece) # pieces))"

text \<open>
  \<^verbatim>\<open>_fetchImageAsBase64(url)\<close>: null (\<open>None\<close>) when the fetch throws, the status is not
  a success, the blob cannot be read or the reader fails; otherwise the object
  \<^verbatim>\<open>{data, mimeType}\<close>, where \<open>data\<close> is \<^verbatim>\<open>reader.result.split(",")[1]\<close>, undefined
  (\<open>None\<close>) when the result has no comma, and \<open>mimeType\<close> is the blob's type,
  \<open>image/jpeg\<close> when that is empty.
\<close>

definition fetchImageAsBase64 :: "image_response \<Rightarrow> (string option \<times> string) option" where
  "fetchImageAsBase64 r =
     (case r of
        FetchThrows \<Rightarrow> None
      | ImageResponds status b \<Rightarrow>
          if \<not> ok status then None
          else (case b of
                  BlobFails \<Rightarrow> None
                | Blob ty rd \<Rightarrow>
                    let mimeType = (if ty \<noteq> [] then ty else ''image/jpeg'')
                    in (case rd of
                          ReaderError \<Rightarrow> None
                        | Loaded result \<Rightarrow>
                            let base64 = (if 1 < length (split_commas result)
                                          then Some (split_commas result ! 1) else None)
                            in Some (base64, mimeType))))"

definition MAX_IMAGE_PAYLOAD :: rat where
  "MAX_IMAGE_PAYLOAD = 3 * 1024 * 1024"

definition inline_data :: "string \<times> string \<Rightarrow> json" where
  "inline_data imgData =
     JObj [(''inline_data'', JObj [(''mime_type'', JStr (snd imgData)),
                                   (''data'', JStr (fst imgData))])]"

text \<open>
  The loop over \<^verbatim>\<open>imageResults\<close>, from a given \<^verbatim>\<open>payloadBytes\<close>: the parts it pushes,
  or what it throws. A null result is passed over; a result that would take the payload
  over the cap ends the loop; on a result whose \<open>data\<close> is undefined,
  \<^verbatim>\<open>imgData.data.length\<close> raises a \<open>TypeError\<close>.
\<close>

fun attach_images :: "rat \<Rightarrow> (string option \<times> string) option list \<Rightarrow> thrown + json list" where
  "attach_images payloadBytes [] = Inr []"
| "attach_images payloadBytes (None # rest) = attach_images payloadBytes rest"
| "attach_images payloadBytes (Some (None, mimeType) # rest) =
     Inl (TypeError (undefined_read ''length''))"
| "attach_images payloadBytes (Some (Some base64, mimeType) # rest) =
     (let imgBytes = of_nat (length base64) * (3 / 4)
      in if payloadBytes + imgBytes > MAX_IMAGE_PAYLOAD then Inr []
         else (case attach_images (payloadBytes + imgBytes) rest of
                 Inl e \<Rightarrow> Inl e
               | Inr pushed \<Rightarrow> Inr (inline_data (base64, mimeType) # pushed)))"

text \<open>The image parts of a call: none for an empty image list.\<close>

definition Gemini_attached :: "network \<Rightarrow> image list \<Rightarrow> thrown + json list" where
  "Gemini_attached net images =
     (if length images > 0
      then attach_images 0 (map (\<lambda>img. fetchImageAsBase64 (fetch_image net (url img))) images)
      else Inr [])"

definition Gemini_parts ::
  "network \<Rightarrow> string \<Rightarrow> summary_type \<Rightarrow> string \<Rightarrow> image list \<Rightarrow> thrown + json list" where
  "Gemini_parts net content ty title images =
     (case Gemini_attached net images of
        Inl e \<Rightarrow> Inl e
      | Inr pushed \<Rightarrow>
          Inr (JObj [(''text'', JStr (systemPrompt images @ nl @ nl @ userPrompt ty title content))] #
               pushed))"

definition Gemini_request :: "string \<Rightarrow> json list \<Rightarrow> request" where
  "Gemini_request apiKey parts =
     Post (Gemini_apiEndpoint @ ''/'' @ Gemini_defaultModel @ '':generateContent?key='' @ apiKey)
       [(''Content-Type'', ''application/json'')]
       (JObj [(''contents'', JArr [JObj [(''parts'', JArr parts)]]),
              (''generationConfig'', JObj [(''temperature'', JNum ''0.5''),
                                           (''maxOutputTokens'', JNum ''1000'')])])"

text \<open>The Gemini adapter ends its \<^verbatim>\<open>apiErrorMessage\<close> with \<^verbatim>\<open>|| null\<close>.\<close>

definition Gemini_apiErrorMessage :: "body \<Rightarrow> jsval" where
  "Gemini_apiErrorMessage b =
     (case b of
        BodyFails e \<Rightarrow> Val JNull
      | Json JNull \<Rightarrow> Val JNull
      | Json errorData \<Rightarrow>
          let m = chain (member_of errorData (Name ''error'')) [Name ''message'']
          in if truthy m then m else Val JNull)"

definition Gemini_response :: "fetch_result \<Rightarrow> thrown + jsval" where
  "Gemini_response r =
     (case r of
        Rejects e \<Rightarrow> Inl e
      | Responds status b \<Rightarrow>
          if \<not> ok status then Inl (HttpFailure status (Gemini_apiErrorMessage b))
          else (case b of
                  BodyFails e \<Rightarrow> Inl e
                | Json JNull \<Rightarrow> Inl (TypeError (null_read ''candidates''))
                | Json data \<Rightarrow>
                    let text = chain (member_of data (Name ''candidates''))
                                 [Index 0, Name ''content'', Name ''parts'', Index 0, Name ''text'']
                    in if \<not> truthy text
                       then Inl (HttpFailure 500 (Val (JStr ''Invalid response structure from Gemini'')))
                       else Inr text))"

text \<open>
  The image fetches come first, one per image and in the order of the list; when the
  loop over their results throws, the call ends there and the request is not sent.
\<close>

definition GeminiProvider_generateSummary ::
  "network \<Rightarrow> string \<Rightarrow> string \<Rightarrow> summary_type \<Rightarrow> string \<Rightarrow> image list
     \<Rightarrow> (thrown + jsval) \<times> request list" where
  "GeminiProvider_generateSummary net apiKey content ty title images =
     (case Gemini_parts net content ty title images of
        Inl e \<Rightarrow> (Inl e, map (\<lambda>img. Get (url img)) images)
      | Inr parts \<Rightarrow>
          (Gemini_response (main net),
           map (\<lambda>img. Get (url img)) images @ [Gemini_request apiKey parts]))"

section \<open>The registry\<close>

datatype provider = OpenAIProvider | GeminiProvider | ClaudeProvider

text \<open>
  \<^verbatim>\<open>providers[provider]\<close> reads a member of an object literal with the three names
  \<open>openai\<close>, \<open>gemini\<close> and \<open>claude\<close>. Like every member read it also finds what the
  literal inherits from \<^verbatim>\<open>Object.prototype\<close>: under such a name the result is a function
  (or, for \<open>__proto__\<close>, the prototype object), which is truthy and is no adapter.
\<close>

datatype registry_entry = Adapter provider | Inherited

definition Object_prototype_names :: "string list" where
  "Object_prototype_names =
     [''constructor'', ''__defineGetter__'', ''__defineSetter__'', ''hasOwnProperty'',
      ''__lookupGetter__'', ''__lookupSetter__'', ''isPrototypeOf'', ''propertyIsEnumerable'',
      ''toString'', ''valueOf'', ''__proto__'', ''toLocaleString'']"

definition providers :: "string \<Rightarrow> registry_entry option" where
  "providers provider =
     (if provider = ''openai'' then Some (Adapter OpenAIProvider)
      else if provider = ''gemini'' then Some (Adapter GeminiProvider)
      else if provider = ''claude'' then Some (Adapter ClaudeProvider)
      else if provider \<in> set Object_prototype_names then Some Inherited
      else None)"

text \<open>
  \<^verbatim>\<open>aiProvider.supportsMultimodal\<close>: the OpenAI and Gemini objects define it as true, the
  Claude object does not define it.
\<close>

fun supportsMultimodal :: "registry_entry \<Rightarrow> jsval" where
  "supportsMultimodal (Adapter OpenAIProvider) = Val (JBool True)"
| "supportsMultimodal (Adapter GeminiProvider) = Val (JBool True)"
| "supportsMultimodal (Adapter ClaudeProvider) = Undefined"
| "supportsMultimodal Inherited = Undefined"

text \<open>
  \<^verbatim>\<open>aiProvider.generateSummary(...)\<close>: on an inherited member there is no such method and
  the call raises a \<open>TypeError\<close> before anything is sent.
\<close>

fun call_generateSummary ::
  "registry_entry \<Rightarrow> network \<Rightarrow> string \<Rightarrow> string \<Rightarrow> summary_type \<Rightarrow> string \<Rightarrow> image list
     \<Rightarrow> (thrown + jsval) \<times> request list" where
  "call_generateSummary (Adapter OpenAIProvider) net apiKey content ty title images =
     OpenAIProvider_generateSummary net apiKey content ty title images"
| "call_generateSummary (Adapter GeminiProvider) net apiKey content ty title images =
     GeminiProvider_generateSummary net apiKey content ty title images"
| "call_generateSummary (Adapter ClaudeProvider) net apiKey content ty title images =
     ClaudeProvider_generateSummary net apiKey content ty title images"
| "call_generateSummary Inherited net apiKey content ty title images =
     (Inl (TypeError ''aiProvider.generateSummary is not a function''), [])"

section \<open>Dispatch\<close>

text \<open>
  What a dispatch does besides returning: arming and clearing the timer, the call
  \<^verbatim>\<open>aiProvider.generateSummary(...)\<close> (on which entry, with which images), the requests
  of the adapter, each call of
  \<^verbatim>\<open>classifyError\<close> with its arguments, and showing a message to the user.
\<close>

datatype effect =
    SetTimeout nat
  | ClearTimeout
  | Invoke registry_entry "image list"
  | Fetch request
  | ClassifyError thrown "nat option"
  | ShowError string

definition conversion_error :: thrown where
  "conversion_error = TypeError ''Cannot convert object to primitive value''"

text \<open>
  The \<^verbatim>\<open>catch\<close> clause of \<^verbatim>\<open>generateSummary\<close> in popup.js: what it throws, and the calls
  of the classifier it makes. For an HTTP failure the message is converted to a string
  for \<^verbatim>\<open>new Error(...)\<close>, before the classifier is called, and again for the template
  literal of the user message (and of the log line); a conversion that throws ends the
  clause with that \<open>TypeError\<close>.
\<close>

definition generateSummary_catch :: "thrown \<Rightarrow> thrown \<times> effect list" where
  "generateSummary_catch error =
     (if name_of error = Val (JStr ''AbortError'')
      then (Classified (classifyError error None), [ClassifyError error None])
      else if instanceof_TypeError error
      then (Classified (classifyError error None), [ClassifyError error None])
      else case httpStatus_of error of
        Some s \<Rightarrow>
          if s \<noteq> 0
          then
            (case (if truthy (message_of error) then to_string (message_of error)
                   else Some (''HTTP '' @ show_nat s)) of
               None \<Rightarrow> (conversion_error, [])
             | Some text \<Rightarrow>
                 let wrapped = OtherError ''Error'' text;
                     errorInfo = classifyError wrapped (Some s)
                 in if truthy (message_of error) \<and> type errorInfo = ERROR_TYPES UNKNOWN
                    then (case to_string (message_of error) of
                            None \<Rightarrow> (conversion_error, [ClassifyError wrapped (Some s)])
                          | Some shown \<Rightarrow>
                              (Classified (errorInfo\<lparr>userMessage := cross_mark @ '' '' @ shown\<rparr>),
                               [ClassifyError wrapped (Some s)]))
                    else (Classified errorInfo, [ClassifyError wrapped (Some s)]))
          else (Classified (classifyError error None), [ClassifyError error None])
      | None \<Rightarrow> (Classified (classifyError error None), [ClassifyError error None]))"

text \<open>
  \<^verbatim>\<open>generateSummary(provider, apiKey, content, type, title, images)\<close> of popup.js: the
  summary it returns or what it throws, and its effects in order. The timer is armed
  with 30000 ms and its callback, \<^verbatim>\<open>controller.abort()\<close>, is the only place where the
  signal handed to the adapter is aborted.
\<close>

definition generateSummary ::
  "network \<Rightarrow> string \<Rightarrow> string \<Rightarrow> string \<Rightarrow> summary_type \<Rightarrow> string \<Rightarrow> image list
     \<Rightarrow> (thrown + jsval) \<times> effect list" where
  "generateSummary net provider apiKey content ty title images =
     (case providers provider of
        None \<Rightarrow>
          (Inl (Classified \<lparr>type = ERROR_TYPES UNKNOWN,
                            userMessage = ''Unknown AI provider: '' @ provider,
                            debugInfo = ''Provider '' @ provider @ '' not found''\<rparr>), [])
      | Some aiProvider \<Rightarrow>
          let imagesToPass = (if truthy (supportsMultimodal aiProvider) then images else []);
              (outcome, requests) =
                 call_generateSummary aiProvider net apiKey content ty title imagesToPass;
              called = SetTimeout 30000 # Invoke aiProvider imagesToPass # map Fetch requests
          in (case outcome of
                Inr result \<Rightarrow> (Inr result, called @ [ClearTimeout])
              | Inl error \<Rightarrow>
                  let (thrown, classified) = generateSummary_catch error
                  in (Inl thrown, called @ classified @ [ClearTimeout])))"

fun is_ClassifyError :: "effect \<Rightarrow> bool" where
  "is_ClassifyError (ClassifyError e h) = True"
| "is_ClassifyError x = False"

fun is_Fetch :: "effect \<Rightarrow> bool" where
  "is_Fetch (Fetch r) = True"
| "is_Fetch x = False"

fun is_SetTimeout :: "effect \<Rightarrow> bool" where
  "is_SetTimeout (SetTimeout d) = True"
| "is_SetTimeout x = False"

fun is_adapter_call :: "effect \<Rightarrow> bool" where
  "is_adapter_call (Invoke (Adapter p) imgs) = True"
| "is_adapter_call x = False"

section \<open>The caller\<close>

fun type_of :: "thrown \<Rightarrow> jsval" where
  "type_of (Classified c) = Val (JStr (type c))"
| "type_of e = Undefined"

fun userMessage_of :: "thrown \<Rightarrow> jsval" where
  "userMessage_of (Classified c) = Val (JStr (userMessage c))"
| "userMessage_of e = Undefined"

text \<open>
  The outer \<^verbatim>\<open>catch\<close> clause of \<^verbatim>\<open>summarizePage\<close>: an error that has a type and a user
  message is shown as it is, any other is classified first.
\<close>

definition summarizePage_catch :: "thrown \<Rightarrow> effect list" where
  "summarizePage_catch err =
     (if truthy (type_of err) \<and> truthy (userMessage_of err)
      then [ShowError (text_of (userMessage_of err))]
      else [ClassifyError err None, ShowError (userMessage (classifyError err None))])"

section \<open>Notions used in the statements\<close>

text \<open>
  The path at which each adapter reads the summary text in the parsed body, and the
  message each adapter gives to a body without text there. A body lacks the text when
  following the path (stopping at anything undefined or null) gives nothing truthy.
\<close>

definition text_path :: "provider \<Rightarrow> key list" where
  "text_path p =
     (case p of
        ClaudeProvider \<Rightarrow> [Name ''content'', Index 0, Name ''text'']
      | OpenAIProvider \<Rightarrow> [Name ''choices'', Index 0, Name ''message'', Name ''content'']
      | GeminiProvider \<Rightarrow>
          [Name ''candidates'', Index 0, Name ''content'', Name ''parts'', Index 0, Name ''text''])"

definition lacks_text :: "provider \<Rightarrow> json \<Rightarrow> bool" where
  "lacks_text p data = (\<not> truthy (chain (Val data) (text_path p)))"

definition invalid_structure :: "provider \<Rightarrow> string" where
  "invalid_structure p =
     (case p of
        ClaudeProvider \<Rightarrow> ''Invalid response structure from Claude''
      | OpenAIProvider \<Rightarrow> ''Invalid response structure from OpenAI''
      | GeminiProvider \<Rightarrow> ''Invalid response structure from Gemini'')"

text \<open>
  A call whose image attachment throws: only the Gemini adapter attaches images itself,
  and its loop throws on a loaded result without data.
\<close>

definition attachment_fails :: "provider \<Rightarrow> network \<Rightarrow> image list \<Rightarrow> bool" where
  "attachment_fails p net imgs =
     (p = GeminiProvider \<and> (case Gemini_attached net imgs of Inl e \<Rightarrow> True | Inr pushed \<Rightarrow> False))"

text \<open>
  The image results that loaded with their data, in the order of the list, and the
  bytes the loop counts for them.
\<close>

fun loaded :: "(string option \<times> string) option list \<Rightarrow> (string \<times> string) list" where
  "loaded [] = []"
| "loaded (None # rs) = loaded rs"
| "loaded (Some (None, mimeType) # rs) = loaded rs"
| "loaded (Some (Some base64, mimeType) # rs) = (base64, mimeType) # loaded rs"

fun payload :: "(string \<times> string) list \<Rightarrow> rat" where
  "payload [] = 0"
| "payload (imgData # rest) = of_nat (length (fst imgData)) * (3 / 4) + payload rest"

section \<open>From the adapters to the dispatch\<close>

lemmas adapter_defs =
  ClaudeProvider_generateSummary_def OpenAIProvider_generateSummary_def
  GeminiProvider_generateSummary_def

lemma dispatch_failure:
  assumes "providers provider = Some a"
    and "fst (call_generateSummary a net k c ty t
               (if truthy (supportsMultimodal a) then imgs else [])) = Inl err"
  shows "fst (generateSummary net provider k c ty t imgs) = Inl (fst (generateSummary_catch err))"
proof -
  obtain outcome requests where call:
    "call_generateSummary a net k c ty t
       (if truthy (supportsMultimodal a) then imgs else []) = (outcome, requests)"
    by (cases "call_generateSummary a net k c ty t
       (if truthy (supportsMultimodal a) then imgs else [])")
  with assms(2) have out: "outcome = Inl err"
    by simp
  obtain thrown cl where c: "generateSummary_catch err = (thrown, cl)"
    by (cases "generateSummary_catch err")
  from assms(1) call out c show ?thesis
    by (simp add: generateSummary_def Let_def)
qed

lemma chain_Cons:
  "chain v (k # ks) = chain (opt_chain v k) ks"
  by (simp add: chain_def)

lemma chain_Nil:
  "chain v [] = v"
  by (simp add: chain_def)

lemma attach_throws:
  "attach_images b rs = Inl e \<Longrightarrow> e = TypeError (undefined_read ''length'')"
proof (induction b rs rule: attach_images.induct)
  case (4 payloadBytes base64 mimeType rest)
  show ?case
  proof (cases "payloadBytes + of_nat (length base64) * (3 / 4) > MAX_IMAGE_PAYLOAD")
    case True
    with "4.prems" show ?thesis
      by (simp add: Let_def)
  next
    case False
    with "4.prems" have
      "attach_images (payloadBytes + of_nat (length base64) * (3 / 4)) rest = Inl e"
      by (simp add: Let_def split: sum.splits)
    with "4.IH" [OF refl False] show ?thesis .
  qed
qed simp_all

lemma attachment_throws:
  assumes "attachment_fails p net imgs"
  shows "p = GeminiProvider \<and>
         Gemini_parts net c ty t imgs = Inl (TypeError (undefined_read ''length''))"
proof -
  from assms obtain e where e: "p = GeminiProvider" "Gemini_attached net imgs = Inl e"
    by (auto simp: attachment_fails_def split: sum.splits)
  then have "e = TypeError (undefined_read ''length'')"
    by (auto simp: Gemini_attached_def split: if_splits dest: attach_throws)
  with e show ?thesis
    by (simp add: Gemini_parts_def)
qed

lemma adapter_outcome:
  "fst (call_generateSummary (Adapter p) net k c ty t
          (if truthy (supportsMultimodal (Adapter p)) then imgs else [])) =
     (if attachment_fails p net imgs then Inl (TypeError (undefined_read ''length''))
      else case p of
             ClaudeProvider \<Rightarrow> Claude_response (main net)
           | OpenAIProvider \<Rightarrow> OpenAI_response (main net)
           | GeminiProvider \<Rightarrow> Gemini_response (main net))"
proof (cases "attachment_fails p net imgs")
  case True
  from attachment_throws [OF True, of c ty t] True show ?thesis
    by (simp add: adapter_defs)
next
  case False
  then show ?thesis
    by (cases p)
       (auto simp: adapter_defs attachment_fails_def Gemini_parts_def split: sum.splits)
qed

lemma undefined_read_not_network:
  "\<not> str_includes (undefined_read ''length'') ''Failed to fetch'' \<and>
   \<not> str_includes (undefined_read ''length'') ''fetch''"
  by code_simp

lemma dispatch_attachment_fails:
  assumes "providers provider = Some (Adapter p)" and "attachment_fails p net imgs"
  shows "fst (generateSummary net provider k c ty t imgs) =
           Inl (Classified \<lparr>type = ERROR_TYPES UNKNOWN, userMessage = USER_MESSAGES UNKNOWN,
                            debugInfo = undefined_read ''length''\<rparr>)"
proof -
  from assms have "fst (generateSummary net provider k c ty t imgs) =
      Inl (fst (generateSummary_catch (TypeError (undefined_read ''length''))))"
    by (simp add: dispatch_failure adapter_outcome)
  then show ?thesis
    using undefined_read_not_network
    by (simp add: generateSummary_catch_def classifyError_def Let_def or_text_def
          undefined_read_def)
qed

lemma invalid_structure_raised:
  assumes "main net = Responds s (Json data)" and "ok s" and "data \<noteq> JNull"
    and "lacks_text p data" and "\<not> attachment_fails p net imgs"
  shows "fst (call_generateSummary (Adapter p) net k c ty t
                (if truthy (supportsMultimodal (Adapter p)) then imgs else [])) =
           Inl (HttpFailure 500 (Val (JStr (invalid_structure p))))"
proof -
  have "(case p of
           ClaudeProvider \<Rightarrow> Claude_response (main net)
         | OpenAIProvider \<Rightarrow> OpenAI_response (main net)
         | GeminiProvider \<Rightarrow> Gemini_response (main net)) =
        Inl (HttpFailure 500 (Val (JStr (invalid_structure p))))"
    using assms(1-4)
    by (cases p; cases data)
       (simp_all add: Claude_response_def OpenAI_response_def Gemini_response_def
          lacks_text_def text_path_def invalid_structure_def chain_Cons chain_Nil Let_def)
  with assms(5) show ?thesis
    by (simp add: adapter_outcome)
qed

lemma body_failure_raised:
  assumes "main net = Responds s (BodyFails e)" and "ok s" and "\<not> attachment_fails p net imgs"
  shows "fst (call_generateSummary (Adapter p) net k c ty t
                (if truthy (supportsMultimodal (Adapter p)) then imgs else [])) = Inl e"
  using assms unfolding adapter_outcome
  by (cases p)
     (simp_all add: Claude_response_def OpenAI_response_def Gemini_response_def)


lemma show_nat_500: "show_nat 500 = ''500''"
  by code_simp


section \<open>The classifier on HTTP failures\<close>

text \<open>
  For an HTTP failure the dispatch calls the classifier on \<^verbatim>\<open>new Error(...)\<close>, which is
  no \<open>TypeError\<close> and is not named \<open>AbortError\<close>, so only the status decides.
\<close>

lemma classifyError_wrapped:
  "classifyError (OtherError ''Error'' m) (Some s) =
     (if s = 400 \<or> s = 401 \<or> s = 403
      then \<lparr>type = ERROR_TYPES UNAUTHORIZED, userMessage = USER_MESSAGES UNAUTHORIZED,
            debugInfo = ''HTTP '' @ show_nat s @ '': Unauthorized / Bad API key''\<rparr>
      else if s = 429
      then \<lparr>type = ERROR_TYPES RATE_LIMIT, userMessage = USER_MESSAGES RATE_LIMIT,
            debugInfo = ''HTTP 429: Rate limit exceeded''\<rparr>
      else if s = 404
      then \<lparr>type = ERROR_TYPES UNKNOWN, userMessage = model_not_found_message,
            debugInfo = ''HTTP 404: Model not found''\<rparr>
      else if s \<ge> 500
      then \<lparr>type = ERROR_TYPES SERVER_ERROR, userMessage = USER_MESSAGES SERVER_ERROR,
            debugInfo = ''HTTP '' @ show_nat s @ '': Server error''\<rparr>
      else \<lparr>type = ERROR_TYPES UNKNOWN, userMessage = USER_MESSAGES UNKNOWN,
            debugInfo = or_text (Val (JStr m)) ''Unknown error occurred''\<rparr>)"
  by (simp add: classifyError_def Let_def)

text \<open>
  The catch clause on an HTTP failure whose message converts to a string (or is not
  truthy, and so is not converted), and on one whose message does not.
\<close>

lemma catch_HttpFailure:
  assumes "s \<noteq> 0" and "truthy msg \<longrightarrow> to_string msg = Some shown"
  shows "generateSummary_catch (HttpFailure s msg) =
     (let wrapped = OtherError ''Error'' (if truthy msg then shown else ''HTTP '' @ show_nat s);
          errorInfo = classifyError wrapped (Some s)
      in (Classified (if truthy msg \<and> type errorInfo = ERROR_TYPES UNKNOWN
                      then errorInfo\<lparr>userMessage := cross_mark @ '' '' @ shown\<rparr>
                      else errorInfo),
          [ClassifyError wrapped (Some s)]))"
  using assms
  by (simp add: generateSummary_catch_def Let_def)

lemma catch_HttpFailure_unconverted:
  assumes "s \<noteq> 0" and "truthy msg" and "to_string msg = None"
  shows "generateSummary_catch (HttpFailure s msg) = (conversion_error, [])"
  using assms
  by (simp add: generateSummary_catch_def)

lemma catch_HttpFailure_0:
  "generateSummary_catch (HttpFailure 0 msg) =
     (Classified \<lparr>type = ERROR_TYPES UNKNOWN, userMessage = USER_MESSAGES UNKNOWN,
                  debugInfo = or_text msg ''Unknown error occurred''\<rparr>,
      [ClassifyError (HttpFailure 0 msg) None])"
  by (simp add: generateSummary_catch_def classifyError_def Let_def)

lemma catch_userMessage:
  assumes "truthy msg \<longrightarrow> to_string msg = Some shown"
  shows "\<exists>e. fst (generateSummary_catch (HttpFailure s msg)) = Classified e \<and>
     type e =
       (if s = 400 \<or> s = 401 \<or> s = 403 then ERROR_TYPES UNAUTHORIZED
        else if s = 429 then ERROR_TYPES RATE_LIMIT
        else if s \<ge> 500 then ERROR_TYPES SERVER_ERROR
        else ERROR_TYPES UNKNOWN) \<and>
     userMessage e =
       (if s = 400 \<or> s = 401 \<or> s = 403 then USER_MESSAGES UNAUTHORIZED
        else if s = 429 then USER_MESSAGES RATE_LIMIT
        else if s \<ge> 500 then USER_MESSAGES SERVER_ERROR
        else if s = 0 then USER_MESSAGES UNKNOWN
        else if truthy msg then cross_mark @ '' '' @ shown
        else if s = 404 then model_not_found_message
        else USER_MESSAGES UNKNOWN)"
proof (cases "s = 0")
  case True
  then show ?thesis
    by (simp add: catch_HttpFailure_0)
next
  case False
  with assms show ?thesis
    by (simp add: catch_HttpFailure classifyError_wrapped Let_def)
qed



section \<open>One classification per failure\<close>

lemma classifyError_carries:
  "type (classifyError e h) \<noteq> [] \<and> userMessage (classifyError e h) \<noteq> []"
  by (simp add: classifyError_def Let_def cross_mark_def model_not_found_message_def
           split: option.splits)

text \<open>
  The catch clause of the dispatch either throws a structured error after one call of
  the classifier, or throws the \<open>TypeError\<close> of a conversion without having called it.
\<close>

lemma catch_outcome:
  "(\<exists>c. fst (generateSummary_catch e) = Classified c \<and> type c \<noteq> [] \<and> userMessage c \<noteq> [] \<and>
        length (filter is_ClassifyError (snd (generateSummary_catch e))) = 1) \<or>
   generateSummary_catch e = (conversion_error, [])"
  by (auto simp: generateSummary_catch_def Let_def classifyError_carries cross_mark_def
        split: option.splits)

lemma no_classification_in_requests:
  "filter is_ClassifyError (map Fetch rs) = []"
  by (induction rs) simp_all

lemma dispatch_thrown:
  assumes "generateSummary net provider k c ty t imgs = (Inl e, fx)"
  shows "(\<exists>c. e = Classified c \<and> type c \<noteq> [] \<and> userMessage c \<noteq> [] \<and>
              length (filter is_ClassifyError fx) =
                (if providers provider = None then 0 else 1)) \<or>
         (e = conversion_error \<and> filter is_ClassifyError fx = [] \<and> providers provider \<noteq> None)"
proof (cases "providers provider")
  case None
  with assms show ?thesis
    by (auto simp: generateSummary_def)
next
  case (Some aiProvider)
  obtain outcome requests where call:
    "call_generateSummary aiProvider net k c ty t
       (if truthy (supportsMultimodal aiProvider) then imgs else []) = (outcome, requests)"
    by (cases "call_generateSummary aiProvider net k c ty t
       (if truthy (supportsMultimodal aiProvider) then imgs else [])")
  show ?thesis
  proof (cases outcome)
    case (Inl error)
    obtain thrown cl where c: "generateSummary_catch error = (thrown, cl)"
      by (cases "generateSummary_catch error")
    from assms Some call Inl c have e: "e = thrown"
      and fx: "filter is_ClassifyError fx = filter is_ClassifyError cl"
      by (auto simp: generateSummary_def Let_def no_classification_in_requests)
    from catch_outcome [of error] c e fx Some show ?thesis
      by auto
  next
    case (Inr result)
    with assms Some call show ?thesis
      by (auto simp: generateSummary_def Let_def)
  qed
qed

lemma conversion_error_not_network:
  "\<not> str_includes ''Cannot convert object to primitive value'' ''Failed to fetch'' \<and>
   \<not> str_includes ''Cannot convert object to primitive value'' ''fetch''"
  by code_simp

lemma caller_on_conversion_error:
  "summarizePage_catch conversion_error =
     [ClassifyError conversion_error None, ShowError (USER_MESSAGES UNKNOWN)]"
  using conversion_error_not_network
  by (simp add: summarizePage_catch_def conversion_error_def classifyError_def Let_def)

text \<open>
  C2. An error object that has a type and a user message is shown as it is by the
  caller, with no call of the classifier. Whatever a failing dispatch throws, the
  dispatch and the caller together call the classifier at most once, and exactly once
  when the registry finds the provider (the unknown-provider error is built without
  the classifier): a structured error thrown by the dispatch is shown by the caller
  unchanged and is not classified again.
\<close>

theorem classified_once:
  "(type c \<noteq> [] \<and> userMessage c \<noteq> [] \<longrightarrow>
      summarizePage_catch (Classified c) = [ShowError (userMessage c)]) \<and>
   (generateSummary net provider k content ty t imgs = (Inl e, fx) \<longrightarrow>
      (\<forall>c'. e = Classified c' \<longrightarrow> summarizePage_catch e = [ShowError (userMessage c')]) \<and>
      length (filter is_ClassifyError (fx @ summarizePage_catch e)) \<le> 1 \<and>
      (providers provider \<noteq> None \<longrightarrow>
         length (filter is_ClassifyError (fx @ summarizePage_catch e)) = 1))"
proof (intro conjI impI allI)
  assume "type c \<noteq> [] \<and> userMessage c \<noteq> []"
  then show "summarizePage_catch (Classified c) = [ShowError (userMessage c)]"
    by (simp add: summarizePage_catch_def)
next
  fix c'
  assume a: "generateSummary net provider k content ty t imgs = (Inl e, fx)"
    and e: "e = Classified c'"
  from dispatch_thrown [OF a] e
  show "summarizePage_catch e = [ShowError (userMessage c')]"
    by (auto simp: summarizePage_catch_def conversion_error_def)
next
  assume a: "generateSummary net provider k content ty t imgs = (Inl e, fx)"
  from dispatch_thrown [OF a]
  show "length (filter is_ClassifyError (fx @ summarizePage_catch e)) \<le> 1"
    by (auto simp: summarizePage_catch_def caller_on_conversion_error)
next
  assume a: "generateSummary net provider k content ty t imgs = (Inl e, fx)"
    and found: "providers provider \<noteq> None"
  from dispatch_thrown [OF a] found
  consider (structured) c' where "e = Classified c'" and "type c' \<noteq> []"
      and "userMessage c' \<noteq> []" and "length (filter is_ClassifyError fx) = 1"
    | (raw) "e = conversion_error" and "filter is_ClassifyError fx = []"
    by auto
  then show "length (filter is_ClassifyError (fx @ summarizePage_catch e)) = 1"
  proof cases
    case structured
    then show ?thesis
      by (simp add: summarizePage_catch_def)
  next
    case raw
    then show ?thesis
      by (simp add: caller_on_conversion_error)
  qed
qed

theorem classified_once_witness:
  "summarizePage_catch
     (Classified \<lparr>type = ''rate_limit'', userMessage = USER_MESSAGES RATE_LIMIT,
                  debugInfo = ''HTTP 429: Rate limit exceeded''\<rparr>) =
     [ShowError (USER_MESSAGES RATE_LIMIT)] \<and>
   length (filter is_ClassifyError
     (snd (generateSummary \<lparr>main = Responds 429 (Json JNull), image_at = []\<rparr>
             ''openai'' ''key'' ''page text'' brief ''title'' []) @
      summarizePage_catch
        (Classified \<lparr>type = ''rate_limit'', userMessage = USER_MESSAGES RATE_LIMIT,
                     debugInfo = ''HTTP 429: Rate limit exceeded''\<rparr>))) = 1 \<and>
   length (filter is_ClassifyError
     (snd (generateSummary
             \<lparr>main = Responds 401 (Json (JObj [(''error'',
                       JObj [(''message'', JObj [(''toString'', JNum ''1'')])])])),
              image_at = []\<rparr>
             ''openai'' ''key'' ''page text'' brief ''title'' []) @
      summarizePage_catch conversion_error)) = 1"
proof -
  let ?e = "\<lparr>type = ''rate_limit'', userMessage = USER_MESSAGES RATE_LIMIT,
             debugInfo = ''HTTP 429: Rate limit exceeded''\<rparr>"
  let ?net = "\<lparr>main = Responds 429 (Json JNull), image_at = []\<rparr>"
  let ?net' = "\<lparr>main = Responds 401 (Json (JObj [(''error'',
                       JObj [(''message'', JObj [(''toString'', JNum ''1'')])])])),
              image_at = []\<rparr>"
  define fx where
    "fx = snd (generateSummary ?net ''openai'' ''key'' ''page text'' brief ''title'' [])"
  define fx' where
    "fx' = snd (generateSummary ?net' ''openai'' ''key'' ''page text'' brief ''title'' [])"
  have openai: "providers ''openai'' = Some (Adapter OpenAIProvider)"
    by (simp add: providers_def)
  have "fst (call_generateSummary (Adapter OpenAIProvider) ?net ''key'' ''page text'' brief ''title''
               (if truthy (supportsMultimodal (Adapter OpenAIProvider)) then [] else [])) =
        Inl (HttpFailure 429 (Val JNull))"
    by code_simp
  moreover have "fst (generateSummary_catch (HttpFailure 429 (Val JNull))) = Classified ?e"
    by code_simp
  ultimately
  have "fst (generateSummary ?net ''openai'' ''key'' ''page text'' brief ''title'' []) =
      Inl (Classified ?e)"
    using dispatch_failure [OF openai] by simp
  then have run: "generateSummary ?net ''openai'' ''key'' ''page text'' brief ''title'' [] =
      (Inl (Classified ?e), fx)"
    by (simp add: fx_def prod_eq_iff)
  have "fst (call_generateSummary (Adapter OpenAIProvider) ?net' ''key'' ''page text'' brief ''title''
               (if truthy (supportsMultimodal (Adapter OpenAIProvider)) then [] else [])) =
        Inl (HttpFailure 401 (Val (JObj [(''toString'', JNum ''1'')])))"
    by code_simp
  moreover have "fst (generateSummary_catch
                   (HttpFailure 401 (Val (JObj [(''toString'', JNum ''1'')])))) = conversion_error"
    by code_simp
  ultimately
  have "fst (generateSummary ?net' ''openai'' ''key'' ''page text'' brief ''title'' []) =
      Inl conversion_error"
    using dispatch_failure [OF openai] by simp
  then have run': "generateSummary ?net' ''openai'' ''key'' ''page text'' brief ''title'' [] =
      (Inl conversion_error, fx')"
    by (simp add: fx'_def prod_eq_iff)
  have carries: "type ?e \<noteq> [] \<and> userMessage ?e \<noteq> []"
    by simp
  from openai have found: "providers ''openai'' \<noteq> None"
    by simp
  note first = classified_once [of ?e ?net "''openai''" "''key''" "''page text''" brief
      "''title''" "[]" "Classified ?e" fx]
  from first carries
  have 1: "summarizePage_catch (Classified ?e) = [ShowError (userMessage ?e)]"
    by blast
  from first run found
  have 2: "length (filter is_ClassifyError (fx @ summarizePage_catch (Classified ?e))) = 1"
    by blast
  note second = classified_once [of ?e ?net' "''openai''" "''key''" "''page text''" brief
      "''title''" "[]" conversion_error fx']
  from second run' found
  have 3: "length (filter is_ClassifyError (fx' @ summarizePage_catch conversion_error)) = 1"
    by blast
  from 1 2 3 show ?thesis
    unfolding fx_def fx'_def by simp
qed

section \<open>The status 404\<close>

text \<open>
  C3, as stated, fails: a 404 answer of Gemini that carries a message gives the kind
  \<open>UNKNOWN\<close>, but the user message is the provider's message after the cross mark, not
  the model-not-found message.
\<close>

theorem not_found_message_counterexample:
  "fst (generateSummary
          \<lparr>main = Responds 404 (Json (JObj [(''error'',
                     JObj [(''code'', JNum ''404''),
                           (''message'', JStr ''models/gemini-2.0-flash is not found'')])])),
           image_at = []\<rparr>
          ''gemini'' ''key'' ''page text'' brief ''title'' []) =
     Inl (Classified \<lparr>type = ''unknown'',
                      userMessage = cross_mark @ '' models/gemini-2.0-flash is not found'',
                      debugInfo = ''HTTP 404: Model not found''\<rparr>) \<and>
   cross_mark @ '' models/gemini-2.0-flash is not found'' \<noteq> model_not_found_message"
proof -
  let ?net = "\<lparr>main = Responds 404 (Json (JObj [(''error'',
                     JObj [(''code'', JNum ''404''),
                           (''message'', JStr ''models/gemini-2.0-flash is not found'')])])),
           image_at = []\<rparr>"
  have gemini: "providers ''gemini'' = Some (Adapter GeminiProvider)"
    by (simp add: providers_def)
  have "fst (call_generateSummary (Adapter GeminiProvider) ?net ''key'' ''page text'' brief ''title''
               (if truthy (supportsMultimodal (Adapter GeminiProvider)) then [] else [])) =
        Inl (HttpFailure 404 (Val (JStr ''models/gemini-2.0-flash is not found'')))"
    by code_simp
  moreover have
    "fst (generateSummary_catch
            (HttpFailure 404 (Val (JStr ''models/gemini-2.0-flash is not found'')))) =
     Classified \<lparr>type = ''unknown'',
                 userMessage = cross_mark @ '' models/gemini-2.0-flash is not found'',
                 debugInfo = ''HTTP 404: Model not found''\<rparr>"
    by code_simp
  moreover have
    "cross_mark @ '' models/gemini-2.0-flash is not found'' \<noteq> model_not_found_message"
    by code_simp
  ultimately show ?thesis
    using dispatch_failure [OF gemini] by simp
qed

text \<open>
  C3, amended. For every HTTP failure with status 404 the classifier gives the kind
  \<open>UNKNOWN\<close> with the model-not-found message, whatever the message of the failure. The
  error the dispatch throws is that error when the failure has no message (or an empty
  one); when it has a message that converts to a string, the error keeps the kind and
  its user message is the cross mark followed by the provider's message.
\<close>

theorem not_found_dispatch:
  "classifyError (OtherError ''Error'' m) (Some 404) =
     \<lparr>type = ERROR_TYPES UNKNOWN, userMessage = model_not_found_message,
      debugInfo = ''HTTP 404: Model not found''\<rparr> \<and>
   (\<not> truthy msg \<longrightarrow>
      fst (generateSummary_catch (HttpFailure 404 msg)) =
        Classified \<lparr>type = ERROR_TYPES UNKNOWN, userMessage = model_not_found_message,
                    debugInfo = ''HTTP 404: Model not found''\<rparr>) \<and>
   (truthy msg \<and> to_string msg = Some shown \<longrightarrow>
      fst (generateSummary_catch (HttpFailure 404 msg)) =
        Classified \<lparr>type = ERROR_TYPES UNKNOWN, userMessage = cross_mark @ '' '' @ shown,
                    debugInfo = ''HTTP 404: Model not found''\<rparr>)"
proof (intro conjI impI)
  show "classifyError (OtherError ''Error'' m) (Some 404) =
     \<lparr>type = ERROR_TYPES UNKNOWN, userMessage = model_not_found_message,
      debugInfo = ''HTTP 404: Model not found''\<rparr>"
    by (simp add: classifyError_wrapped)
next
  assume "\<not> truthy msg"
  then show "fst (generateSummary_catch (HttpFailure 404 msg)) =
        Classified \<lparr>type = ERROR_TYPES UNKNOWN, userMessage = model_not_found_message,
                    debugInfo = ''HTTP 404: Model not found''\<rparr>"
    by (simp add: catch_HttpFailure [of 404 msg "[]"] classifyError_wrapped Let_def)
next
  assume "truthy msg \<and> to_string msg = Some shown"
  then show "fst (generateSummary_catch (HttpFailure 404 msg)) =
        Classified \<lparr>type = ERROR_TYPES UNKNOWN, userMessage = cross_mark @ '' '' @ shown,
                    debugInfo = ''HTTP 404: Model not found''\<rparr>"
    by (simp add: catch_HttpFailure [of 404 msg shown] classifyError_wrapped Let_def)
qed

theorem not_found_dispatch_witness:
  "fst (generateSummary_catch (HttpFailure 404 Undefined)) =
     Classified \<lparr>type = ''unknown'', userMessage = model_not_found_message,
                 debugInfo = ''HTTP 404: Model not found''\<rparr> \<and>
   fst (generateSummary_catch (HttpFailure 404 (Val (JStr ''no such model'')))) =
     Classified \<lparr>type = ''unknown'', userMessage = cross_mark @ '' no such model'',
                 debugInfo = ''HTTP 404: Model not found''\<rparr>"
  using not_found_dispatch [of "''HTTP 404''" Undefined "[]"]
        not_found_dispatch [of "''no such model''" "Val (JStr ''no such model'')" "''no such model''"]
  by simp

section \<open>Provider text in the user message\<close>

text \<open>
  C4, as stated, fails: at status 404, where the model-not-found rule matched, the
  provider's text is shown; and at a status no rule matches the provider's text is not
  added to the generic message but takes its place after the cross mark.
\<close>

theorem provider_text_counterexample:
  "fst (generateSummary_catch (HttpFailure 404 (Val (JStr ''Requested entity was not found.'')))) =
     Classified \<lparr>type = ''unknown'',
                 userMessage = cross_mark @ '' Requested entity was not found.'',
                 debugInfo = ''HTTP 404: Model not found''\<rparr> \<and>
   fst (generateSummary_catch (HttpFailure 402 (Val (JStr ''Payment required'')))) =
     Classified \<lparr>type = ''unknown'',
                 userMessage = cross_mark @ '' Payment required'',
                 debugInfo = ''Payment required''\<rparr> \<and>
   \<not> prefix (USER_MESSAGES UNKNOWN) (cross_mark @ '' Payment required'')"
  by code_simp

text \<open>
  C4, amended. For an HTTP failure whose message converts to a string (or is absent
  or empty), the dispatch throws a structured error whose user message is: the fixed
  message of the kind for the statuses 400, 401, 403, 429 and from 500 on, whatever the
  provider said; for every other status that is not 0, the cross mark followed by the
  provider's message when there is one, and otherwise the fixed model-not-found (404)
  or generic message.
\<close>

theorem provider_text_shown:
  assumes "truthy msg \<longrightarrow> to_string msg = Some shown"
  shows "\<exists>e. fst (generateSummary_catch (HttpFailure s msg)) = Classified e \<and>
     type e =
       (if s = 400 \<or> s = 401 \<or> s = 403 then ERROR_TYPES UNAUTHORIZED
        else if s = 429 then ERROR_TYPES RATE_LIMIT
        else if s \<ge> 500 then ERROR_TYPES SERVER_ERROR
        else ERROR_TYPES UNKNOWN) \<and>
     userMessage e =
       (if s = 400 \<or> s = 401 \<or> s = 403 then USER_MESSAGES UNAUTHORIZED
        else if s = 429 then USER_MESSAGES RATE_LIMIT
        else if s \<ge> 500 then USER_MESSAGES SERVER_ERROR
        else if s = 0 then USER_MESSAGES UNKNOWN
        else if truthy msg then cross_mark @ '' '' @ shown
        else if s = 404 then model_not_found_message
        else USER_MESSAGES UNKNOWN)"
  using assms by (rule catch_userMessage)

theorem provider_text_shown_witness:
  "(\<exists>e. fst (generateSummary_catch (HttpFailure 402 (Val (JStr ''Payment required'')))) =
          Classified e \<and>
        type e = ''unknown'' \<and> userMessage e = cross_mark @ '' Payment required'') \<and>
   (\<exists>e. fst (generateSummary_catch (HttpFailure 401 (Val (JStr ''Incorrect API key'')))) =
          Classified e \<and>
        type e = ''unauthorized'' \<and> userMessage e = USER_MESSAGES UNAUTHORIZED) \<and>
   (\<exists>e. fst (generateSummary_catch (HttpFailure 402 (Val JNull))) = Classified e \<and>
        type e = ''unknown'' \<and> userMessage e = USER_MESSAGES UNKNOWN)"
proof -
  have a: "truthy (Val (JStr ''Payment required'')) \<longrightarrow>
           to_string (Val (JStr ''Payment required'')) = Some ''Payment required''"
    and b: "truthy (Val (JStr ''Incorrect API key'')) \<longrightarrow>
           to_string (Val (JStr ''Incorrect API key'')) = Some ''Incorrect API key''"
    and c: "truthy (Val JNull) \<longrightarrow> to_string (Val JNull) = Some []"
    by simp_all
  from provider_text_shown [OF a, of 402] provider_text_shown [OF b, of 401]
    provider_text_shown [OF c, of 402]
  show ?thesis
    by simp
qed

section \<open>Malformed and unmatched failures\<close>

text \<open>
  C5, as stated, fails: a Claude answer that parses and has no text at the path is
  classified as \<open>SERVER_ERROR\<close>, through the status 500 the adapter gives it.
\<close>

theorem malformed_response_counterexample:
  "fst (generateSummary
          \<lparr>main = Responds 200 (Json (JObj [(''id'', JStr ''msg_01''), (''content'', JArr [])])),
           image_at = []\<rparr>
          ''claude'' ''key'' ''page text'' brief ''title'' []) =
     Inl (Classified \<lparr>type = ''server_error'',
                      userMessage = USER_MESSAGES SERVER_ERROR,
                      debugInfo = ''HTTP 500: Server error''\<rparr>) \<and>
   ''server_error'' \<noteq> ERROR_TYPES UNKNOWN"
proof -
  let ?net = "\<lparr>main = Responds 200 (Json (JObj [(''id'', JStr ''msg_01''), (''content'', JArr [])])),
           image_at = []\<rparr>"
  have claude: "providers ''claude'' = Some (Adapter ClaudeProvider)"
    by (simp add: providers_def)
  have "fst (call_generateSummary (Adapter ClaudeProvider) ?net ''key'' ''page text'' brief ''title''
               (if truthy (supportsMultimodal (Adapter ClaudeProvider)) then [] else [])) =
        Inl (HttpFailure 500 (Val (JStr ''Invalid response structure from Claude'')))"
    by code_simp
  moreover have
    "fst (generateSummary_catch
            (HttpFailure 500 (Val (JStr ''Invalid response structure from Claude'')))) =
     Classified \<lparr>type = ''server_error'', userMessage = USER_MESSAGES SERVER_ERROR,
                 debugInfo = ''HTTP 500: Server error''\<rparr>"
    by code_simp
  ultimately show ?thesis
    using dispatch_failure [OF claude] by simp
qed

text \<open>
  C5, amended. Evidence that none of the earlier rules of the classifier matches is
  classified as the generic \<open>UNKNOWN\<close> error; so is, for every adapter, a successful
  response whose body cannot be parsed. A successful response whose parsed body is not
  null and lacks the text at the adapter's path is classified as \<open>SERVER_ERROR\<close>. (A
  Gemini call whose image attachment throws never sends its request; the dispatch
  reports the generic \<open>UNKNOWN\<close> error for it whatever the response would have been.)
\<close>

theorem unmatched_is_unknown:
  "(\<not> (instanceof_TypeError e \<and>
        (str_includes (text_of (message_of e)) ''Failed to fetch'' \<or>
         str_includes (text_of (message_of e)) ''fetch'')) \<and>
    name_of e \<noteq> Val (JStr ''AbortError'') \<and>
    (case h of None \<Rightarrow> True
     | Some s \<Rightarrow> s \<noteq> 400 \<and> s \<noteq> 401 \<and> s \<noteq> 403 \<and> s \<noteq> 429 \<and> s \<noteq> 404 \<and> s < 500) \<longrightarrow>
      classifyError e h =
        \<lparr>type = ERROR_TYPES UNKNOWN, userMessage = USER_MESSAGES UNKNOWN,
         debugInfo = or_text (message_of e) ''Unknown error occurred''\<rparr>) \<and>
   (providers provider = Some (Adapter p) \<and> ok s' \<and>
    main net = Responds s' (BodyFails (OtherError ''SyntaxError'' m)) \<longrightarrow>
      fst (generateSummary net provider k c ty t imgs) =
        Inl (Classified
              \<lparr>type = ERROR_TYPES UNKNOWN, userMessage = USER_MESSAGES UNKNOWN,
               debugInfo = (if attachment_fails p net imgs then undefined_read ''length''
                            else or_text (Val (JStr m)) ''Unknown error occurred'')\<rparr>)) \<and>
   (providers provider = Some (Adapter p) \<and> ok s' \<and>
    main net = Responds s' (Json data) \<and> data \<noteq> JNull \<and> lacks_text p data \<longrightarrow>
      fst (generateSummary net provider k c ty t imgs) =
        Inl (Classified
              (if attachment_fails p net imgs
               then \<lparr>type = ERROR_TYPES UNKNOWN, userMessage = USER_MESSAGES UNKNOWN,
                     debugInfo = undefined_read ''length''\<rparr>
               else \<lparr>type = ERROR_TYPES SERVER_ERROR, userMessage = USER_MESSAGES SERVER_ERROR,
                     debugInfo = ''HTTP 500: Server error''\<rparr>)))"
proof (intro conjI impI)
  assume "\<not> (instanceof_TypeError e \<and>
        (str_includes (text_of (message_of e)) ''Failed to fetch'' \<or>
         str_includes (text_of (message_of e)) ''fetch'')) \<and>
    name_of e \<noteq> Val (JStr ''AbortError'') \<and>
    (case h of None \<Rightarrow> True
     | Some s \<Rightarrow> s \<noteq> 400 \<and> s \<noteq> 401 \<and> s \<noteq> 403 \<and> s \<noteq> 429 \<and> s \<noteq> 404 \<and> s < 500)"
  then show "classifyError e h =
        \<lparr>type = ERROR_TYPES UNKNOWN, userMessage = USER_MESSAGES UNKNOWN,
         debugInfo = or_text (message_of e) ''Unknown error occurred''\<rparr>"
    by (auto simp: classifyError_def Let_def split: option.splits)
next
  assume a: "providers provider = Some (Adapter p) \<and> ok s' \<and>
    main net = Responds s' (BodyFails (OtherError ''SyntaxError'' m))"
  show "fst (generateSummary net provider k c ty t imgs) =
        Inl (Classified
              \<lparr>type = ERROR_TYPES UNKNOWN, userMessage = USER_MESSAGES UNKNOWN,
               debugInfo = (if attachment_fails p net imgs then undefined_read ''length''
                            else or_text (Val (JStr m)) ''Unknown error occurred'')\<rparr>)"
  proof (cases "attachment_fails p net imgs")
    case True
    with a show ?thesis
      by (simp add: dispatch_attachment_fails)
  next
    case False
    with a have "fst (call_generateSummary (Adapter p) net k c ty t
               (if truthy (supportsMultimodal (Adapter p)) then imgs else [])) =
             Inl (OtherError ''SyntaxError'' m)"
      by (simp add: body_failure_raised)
    with a have "fst (generateSummary net provider k c ty t imgs) =
        Inl (fst (generateSummary_catch (OtherError ''SyntaxError'' m)))"
      by (simp add: dispatch_failure)
    with False show ?thesis
      by (simp add: generateSummary_catch_def classifyError_def Let_def)
  qed
next
  assume a: "providers provider = Some (Adapter p) \<and> ok s' \<and>
    main net = Responds s' (Json data) \<and> data \<noteq> JNull \<and> lacks_text p data"
  show "fst (generateSummary net provider k c ty t imgs) =
        Inl (Classified
              (if attachment_fails p net imgs
               then \<lparr>type = ERROR_TYPES UNKNOWN, userMessage = USER_MESSAGES UNKNOWN,
                     debugInfo = undefined_read ''length''\<rparr>
               else \<lparr>type = ERROR_TYPES SERVER_ERROR, userMessage = USER_MESSAGES SERVER_ERROR,
                     debugInfo = ''HTTP 500: Server error''\<rparr>))"
  proof (cases "attachment_fails p net imgs")
    case True
    with a show ?thesis
      by (simp add: dispatch_attachment_fails)
  next
    case False
    with a have "fst (call_generateSummary (Adapter p) net k c ty t
               (if truthy (supportsMultimodal (Adapter p)) then imgs else [])) =
             Inl (HttpFailure 500 (Val (JStr (invalid_structure p))))"
      by (simp add: invalid_structure_raised)
    with a have "fst (generateSummary net provider k c ty t imgs) =
        Inl (fst (generateSummary_catch (HttpFailure 500 (Val (JStr (invalid_structure p))))))"
      by (simp add: dispatch_failure)
    moreover have "invalid_structure p \<noteq> []"
      by (cases p) (simp_all add: invalid_structure_def)
    ultimately show ?thesis
      using False
      by (simp add: catch_HttpFailure [of 500 _ "invalid_structure p"] classifyError_wrapped
            Let_def show_nat_500)
  qed
qed

theorem unmatched_is_unknown_witness:
  "classifyError (OtherError ''Error'' ''I am a teapot'') (Some 418) =
     \<lparr>type = ''unknown'', userMessage = USER_MESSAGES UNKNOWN, debugInfo = ''I am a teapot''\<rparr> \<and>
   fst (generateSummary
          \<lparr>main = Responds 200 (BodyFails (OtherError ''SyntaxError'' ''Unexpected end of JSON input'')),
           image_at = []\<rparr> ''openai'' ''key'' ''page text'' brief ''title'' []) =
     Inl (Classified \<lparr>type = ''unknown'', userMessage = USER_MESSAGES UNKNOWN,
                      debugInfo = ''Unexpected end of JSON input''\<rparr>) \<and>
   fst (generateSummary
          \<lparr>main = Responds 200 (Json (JObj [(''choices'', JArr [])])), image_at = []\<rparr>
          ''openai'' ''key'' ''page text'' brief ''title'' []) =
     Inl (Classified \<lparr>type = ''server_error'', userMessage = USER_MESSAGES SERVER_ERROR,
                      debugInfo = ''HTTP 500: Server error''\<rparr>)"
proof -
  let ?net1 = "\<lparr>main = Responds 200 (BodyFails (OtherError ''SyntaxError'' ''Unexpected end of JSON input'')),
           image_at = []\<rparr>"
  let ?net2 = "\<lparr>main = Responds 200 (Json (JObj [(''choices'', JArr [])])), image_at = []\<rparr>"
  have h1: "\<not> (instanceof_TypeError (OtherError ''Error'' ''I am a teapot'') \<and>
        (str_includes (text_of (message_of (OtherError ''Error'' ''I am a teapot''))) ''Failed to fetch'' \<or>
         str_includes (text_of (message_of (OtherError ''Error'' ''I am a teapot''))) ''fetch'')) \<and>
    name_of (OtherError ''Error'' ''I am a teapot'') \<noteq> Val (JStr ''AbortError'') \<and>
    (case Some (418::nat) of None \<Rightarrow> True
     | Some s \<Rightarrow> s \<noteq> 400 \<and> s \<noteq> 401 \<and> s \<noteq> 403 \<and> s \<noteq> 429 \<and> s \<noteq> 404 \<and> s < 500)"
    by simp
  have h2: "providers ''openai'' = Some (Adapter OpenAIProvider)"
    by (simp add: providers_def)
  have h3: "ok 200"
    by (simp add: ok_def)
  have h4: "JObj [(''choices'', JArr [])] \<noteq> JNull \<and>
            lacks_text OpenAIProvider (JObj [(''choices'', JArr [])])"
    by (simp add: lacks_text_def text_path_def chain_def)
  have h5: "\<not> attachment_fails OpenAIProvider ?net1 []" "\<not> attachment_fails OpenAIProvider ?net2 []"
    by (simp_all add: attachment_fails_def)
  note w1 = unmatched_is_unknown
    [of "OtherError ''Error'' ''I am a teapot''" "Some 418" "''openai''" OpenAIProvider 200
        ?net1 "''Unexpected end of JSON input''"
        "''key''" "''page text''" brief "''title''" "[]" "JObj []"]
  note w2 = unmatched_is_unknown
    [of "OtherError ''Error'' ''I am a teapot''" "Some 418" "''openai''" OpenAIProvider 200
        ?net2 "''x''"
        "''key''" "''page text''" brief "''title''" "[]" "JObj [(''choices'', JArr [])]"]
  from w1 h1 h2 h3 h5 have
    a: "classifyError (OtherError ''Error'' ''I am a teapot'') (Some 418) =
     \<lparr>type = ''unknown'', userMessage = USER_MESSAGES UNKNOWN, debugInfo = ''I am a teapot''\<rparr>"
    and b: "fst (generateSummary ?net1 ''openai'' ''key'' ''page text'' brief ''title'' []) =
     Inl (Classified \<lparr>type = ''unknown'', userMessage = USER_MESSAGES UNKNOWN,
                      debugInfo = ''Unexpected end of JSON input''\<rparr>)"
    by (simp_all add: or_text_def)
  from w2 h2 h3 h4 h5 have
    c: "fst (generateSummary ?net2 ''openai'' ''key'' ''page text'' brief ''title'' []) =
     Inl (Classified \<lparr>type = ''server_error'', userMessage = USER_MESSAGES SERVER_ERROR,
                      debugInfo = ''HTTP 500: Server error''\<rparr>)"
    by simp
  from a b c show ?thesis by simp
qed

section \<open>Bodies without text\<close>

lemma null_read_not_network:
  "\<not> str_includes (null_read ''content'') ''Failed to fetch'' \<and>
   \<not> str_includes (null_read ''content'') ''fetch''"
  by code_simp

text \<open>
  C6 fails on the code for the body \<open>null\<close>: it parses, it has no text at the path,
  and each adapter raises a \<open>TypeError\<close> on reading its first member rather than the
  failure with status 500 (lemma \<open>invalid_structure_raised\<close> covers every other body).
  The dispatch then reports the generic \<open>UNKNOWN\<close> error.
\<close>

theorem null_body_type_error:
  "lacks_text ClaudeProvider JNull \<and>
   fst (call_generateSummary (Adapter ClaudeProvider)
          \<lparr>main = Responds 200 (Json JNull), image_at = []\<rparr> ''key'' ''page text'' brief ''title'' []) =
     Inl (TypeError (null_read ''content'')) \<and>
   lacks_text OpenAIProvider JNull \<and>
   fst (call_generateSummary (Adapter OpenAIProvider)
          \<lparr>main = Responds 200 (Json JNull), image_at = []\<rparr> ''key'' ''page text'' brief ''title'' []) =
     Inl (TypeError (null_read ''choices'')) \<and>
   lacks_text GeminiProvider JNull \<and>
   fst (call_generateSummary (Adapter GeminiProvider)
          \<lparr>main = Responds 200 (Json JNull), image_at = []\<rparr> ''key'' ''page text'' brief ''title'' []) =
     Inl (TypeError (null_read ''candidates'')) \<and>
   fst (generateSummary \<lparr>main = Responds 200 (Json JNull), image_at = []\<rparr>
          ''claude'' ''key'' ''page text'' brief ''title'' []) =
     Inl (Classified \<lparr>type = ''unknown'', userMessage = USER_MESSAGES UNKNOWN,
                      debugInfo = null_read ''content''\<rparr>)"
proof -
  let ?net = "\<lparr>main = Responds 200 (Json JNull), image_at = []\<rparr>"
  have lacks: "lacks_text ClaudeProvider JNull" "lacks_text OpenAIProvider JNull"
    "lacks_text GeminiProvider JNull"
    by (simp_all add: lacks_text_def text_path_def chain_def)
  have calls:
    "fst (call_generateSummary (Adapter ClaudeProvider) ?net ''key'' ''page text'' brief ''title'' []) =
       Inl (TypeError (null_read ''content''))"
    "fst (call_generateSummary (Adapter OpenAIProvider) ?net ''key'' ''page text'' brief ''title'' []) =
       Inl (TypeError (null_read ''choices''))"
    "fst (call_generateSummary (Adapter GeminiProvider) ?net ''key'' ''page text'' brief ''title'' []) =
       Inl (TypeError (null_read ''candidates''))"
    by (simp_all add: adapter_defs Claude_response_def OpenAI_response_def Gemini_response_def
          Gemini_parts_def Gemini_attached_def ok_def)
  have claude: "providers ''claude'' = Some (Adapter ClaudeProvider)"
    by (simp add: providers_def)
  from calls(1) have "fst (generateSummary ?net ''claude'' ''key'' ''page text'' brief ''title'' []) =
      Inl (fst (generateSummary_catch (TypeError (null_read ''content''))))"
    using dispatch_failure [OF claude, of ?net "''key''" "''page text''" brief "''title''" "[]"]
    by simp
  then have "fst (generateSummary ?net ''claude'' ''key'' ''page text'' brief ''title'' []) =
     Inl (Classified \<lparr>type = ''unknown'', userMessage = USER_MESSAGES UNKNOWN,
                      debugInfo = null_read ''content''\<rparr>)"
    using null_read_not_network
    by (simp add: generateSummary_catch_def classifyError_def Let_def or_text_def null_read_def)
  with lacks calls show ?thesis
    by simp
qed

section \<open>The timeout\<close>

text \<open>
  The effects of a dispatch to a name the registry finds: the timer is armed first, with
  30000 ms, the call of the adapter and everything it leads to come next, and the timer
  is cleared last.
\<close>

lemma dispatch_effects:
  assumes "providers provider = Some a"
    and "call_generateSummary a net k c ty t
           (if truthy (supportsMultimodal a) then imgs else []) = (outcome, requests)"
  shows "snd (generateSummary net provider k c ty t imgs) =
           SetTimeout 30000 #
           Invoke a (if truthy (supportsMultimodal a) then imgs else []) #
           map Fetch requests @
           (case outcome of Inl error \<Rightarrow> snd (generateSummary_catch error) | Inr result \<Rightarrow> []) @
           [ClearTimeout]"
proof (cases outcome)
  case (Inl error)
  obtain thrown cl where "generateSummary_catch error = (thrown, cl)"
    by (cases "generateSummary_catch error")
  with assms Inl show ?thesis
    by (simp add: generateSummary_def Let_def)
next
  case (Inr result)
  with assms show ?thesis
    by (simp add: generateSummary_def Let_def)
qed

text \<open>
  So a dispatch arms one timer, with 30000 ms, before anything else, and clears it
  after everything else.
\<close>

lemma no_timer_in_catch:
  "filter is_SetTimeout (snd (generateSummary_catch e)) = []"
  by (simp add: generateSummary_catch_def Let_def split: option.splits)

lemma no_timer_in_requests:
  "filter is_SetTimeout (map Fetch rs) = []"
  by (induction rs) simp_all

lemma one_timer:
  assumes "providers provider = Some a"
  shows "filter is_SetTimeout (snd (generateSummary net provider k c ty t imgs)) =
           [SetTimeout 30000] \<and>
         hd (snd (generateSummary net provider k c ty t imgs)) = SetTimeout 30000 \<and>
         last (snd (generateSummary net provider k c ty t imgs)) = ClearTimeout"
proof -
  obtain outcome requests where call:
    "call_generateSummary a net k c ty t
       (if truthy (supportsMultimodal a) then imgs else []) = (outcome, requests)"
    by (cases "call_generateSummary a net k c ty t
       (if truthy (supportsMultimodal a) then imgs else [])")
  show ?thesis
    unfolding dispatch_effects [OF assms call]
    by (cases outcome) (simp_all add: no_timer_in_catch no_timer_in_requests)
qed


text \<open>
  On a response without success status every adapter reads the body inside a
  \<^verbatim>\<open>try\<close> whose \<^verbatim>\<open>catch\<close> only logs: whatever the read throws, the failure raised
  carries the status and a null message.
\<close>

lemma body_failure_swallowed:
  "\<not> ok s \<Longrightarrow>
   Claude_response (Responds s (BodyFails e)) = Inl (HttpFailure s (Val JNull)) \<and>
   OpenAI_response (Responds s (BodyFails e)) = Inl (HttpFailure s (Val JNull)) \<and>
   Gemini_response (Responds s (BodyFails e)) = Inl (HttpFailure s (Val JNull))"
  by (simp add: Claude_response_def OpenAI_response_def Gemini_response_def
        apiErrorMessage_def Gemini_apiErrorMessage_def)


section \<open>Unknown providers\<close>

lemma inherited_not_network:
  "\<not> str_includes ''aiProvider.generateSummary is not a function'' ''Failed to fetch'' \<and>
   \<not> str_includes ''aiProvider.generateSummary is not a function'' ''fetch''"
  by code_simp

text \<open>
  C8. For every provider name other than \<open>openai\<close>, \<open>gemini\<close> and \<open>claude\<close> the
  dispatch throws an error of kind \<open>UNKNOWN\<close>, sends no request and calls no adapter;
  for a name that the registry object does not inherit either, it is the
  unknown-provider error and nothing else happens.
\<close>

theorem unknown_provider:
  assumes "provider \<noteq> ''openai''" and "provider \<noteq> ''gemini''" and "provider \<noteq> ''claude''"
  shows "(\<exists>e. fst (generateSummary net provider k c ty t imgs) = Inl (Classified e) \<and>
              type e = ERROR_TYPES UNKNOWN) \<and>
         filter is_Fetch (snd (generateSummary net provider k c ty t imgs)) = [] \<and>
         filter is_adapter_call (snd (generateSummary net provider k c ty t imgs)) = [] \<and>
         (providers provider = None \<longrightarrow>
            generateSummary net provider k c ty t imgs =
              (Inl (Classified \<lparr>type = ERROR_TYPES UNKNOWN,
                                userMessage = ''Unknown AI provider: '' @ provider,
                                debugInfo = ''Provider '' @ provider @ '' not found''\<rparr>), []))"
proof -
  have reg: "providers provider = None \<or> providers provider = Some Inherited"
    using assms by (simp add: providers_def)
  have inh: "providers provider = Some Inherited \<Longrightarrow>
      generateSummary net provider k c ty t imgs =
        (Inl (Classified \<lparr>type = ERROR_TYPES UNKNOWN, userMessage = USER_MESSAGES UNKNOWN,
                          debugInfo = ''aiProvider.generateSummary is not a function''\<rparr>),
         [SetTimeout 30000, Invoke Inherited [],
          ClassifyError (TypeError ''aiProvider.generateSummary is not a function'') None,
          ClearTimeout])"
    using inherited_not_network
    by (simp add: generateSummary_def generateSummary_catch_def classifyError_def Let_def or_text_def)
  have none: "providers provider = None \<Longrightarrow>
      generateSummary net provider k c ty t imgs =
        (Inl (Classified \<lparr>type = ERROR_TYPES UNKNOWN,
                          userMessage = ''Unknown AI provider: '' @ provider,
                          debugInfo = ''Provider '' @ provider @ '' not found''\<rparr>), [])"
    by (simp add: generateSummary_def)
  from reg inh none
  have 1: "\<exists>e. fst (generateSummary net provider k c ty t imgs) = Inl (Classified e) \<and>
             type e = ERROR_TYPES UNKNOWN"
    by auto
  from reg inh none
  have 2: "filter is_Fetch (snd (generateSummary net provider k c ty t imgs)) = []"
    by auto
  from reg inh none
  have 3: "filter is_adapter_call (snd (generateSummary net provider k c ty t imgs)) = []"
    by auto
  from 1 2 3 none show ?thesis
    by blast
qed

theorem unknown_provider_witness:
  "generateSummary \<lparr>main = Responds 200 (Json JNull), image_at = []\<rparr>
      ''mistral'' ''key'' ''page text'' brief ''title'' [] =
     (Inl (Classified \<lparr>type = ''unknown'', userMessage = ''Unknown AI provider: mistral'',
                       debugInfo = ''Provider mistral not found''\<rparr>), []) \<and>
   filter is_Fetch (snd (generateSummary \<lparr>main = Responds 200 (Json JNull), image_at = []\<rparr>
      ''toString'' ''key'' ''page text'' brief ''title'' [])) = []"
proof -
  have a: "''mistral'' \<noteq> ''openai''" "''mistral'' \<noteq> ''gemini''" "''mistral'' \<noteq> ''claude''"
    by simp_all
  have b: "''toString'' \<noteq> ''openai''" "''toString'' \<noteq> ''gemini''" "''toString'' \<noteq> ''claude''"
    by simp_all
  have n: "providers ''mistral'' = None"
    by (simp add: providers_def Object_prototype_names_def)
  from unknown_provider [OF a, of "\<lparr>main = Responds 200 (Json JNull), image_at = []\<rparr>"
      "''key''" "''page text''" brief "''title''" "[]"] n
    unknown_provider [OF b, of "\<lparr>main = Responds 200 (Json JNull), image_at = []\<rparr>"
      "''key''" "''page text''" brief "''title''" "[]"]
  show ?thesis
    by simp
qed

section \<open>Images\<close>

text \<open>
  What the Gemini adapter does with images whose results all carry their data: null
  results are passed over, the attached images are an initial part of the loaded ones
  in the order of the list, and all of them when together they fit the cap; the request
  is then sent with the text part followed by the attached images.
\<close>

lemma attach_images_in_order:
  assumes "\<forall>r \<in> set rs. \<forall>mimeType. r \<noteq> Some (None, mimeType)"
  shows "\<exists>n. attach_images b rs = Inr (map inline_data (take n (loaded rs)))"
  using assms
proof (induction b rs rule: attach_images.induct)
  case (1 payloadBytes)
  show ?case by simp
next
  case (2 payloadBytes rest)
  then show ?case by simp
next
  case (3 payloadBytes mimeType rest)
  then show ?case by simp
next
  case (4 payloadBytes base64 mimeType rest)
  show ?case
  proof (cases "payloadBytes + of_nat (length base64) * (3 / 4) > MAX_IMAGE_PAYLOAD")
    case True
    then have "attach_images payloadBytes (Some (Some base64, mimeType) # rest) =
                 Inr (map inline_data (take 0 (loaded (Some (Some base64, mimeType) # rest))))"
      by (simp add: Let_def)
    then show ?thesis by blast
  next
    case False
    from "4.prems" have "\<forall>r \<in> set rest. \<forall>mimeType. r \<noteq> Some (None, mimeType)"
      by simp
    with "4.IH" [OF refl False] obtain n where
      "attach_images (payloadBytes + of_nat (length base64) * (3 / 4)) rest =
         Inr (map inline_data (take n (loaded rest)))"
      by blast
    with False have "attach_images payloadBytes (Some (Some base64, mimeType) # rest) =
        Inr (map inline_data (take (Suc n) (loaded (Some (Some base64, mimeType) # rest))))"
      by (simp add: Let_def)
    then show ?thesis by blast
  qed
qed

lemma attach_images_all:
  assumes "\<forall>r \<in> set rs. \<forall>mimeType. r \<noteq> Some (None, mimeType)"
    and "b + payload (loaded rs) \<le> MAX_IMAGE_PAYLOAD"
  shows "attach_images b rs = Inr (map inline_data (loaded rs))"
  using assms
proof (induction b rs rule: attach_images.induct)
  case (1 payloadBytes)
  show ?case by simp
next
  case (2 payloadBytes rest)
  then show ?case by simp
next
  case (3 payloadBytes mimeType rest)
  then show ?case by simp
next
  case (4 payloadBytes base64 mimeType rest)
  have nonneg: "0 \<le> payload xs" for xs
    by (induction xs) simp_all
  from "4.prems"(2) nonneg [of "loaded rest"]
  have fits: "\<not> payloadBytes + of_nat (length base64) * (3 / 4) > MAX_IMAGE_PAYLOAD"
    by simp
  from "4.prems" have "\<forall>r \<in> set rest. \<forall>mimeType. r \<noteq> Some (None, mimeType)"
    and "payloadBytes + of_nat (length base64) * (3 / 4) + payload (loaded rest)
           \<le> MAX_IMAGE_PAYLOAD"
    by (simp_all add: add.assoc)
  with "4.IH" [OF refl fits] have
    "attach_images (payloadBytes + of_nat (length base64) * (3 / 4)) rest =
       Inr (map inline_data (loaded rest))"
    by blast
  with fits show ?case
    by (simp add: Let_def)
qed

lemma attach_images_none:
  "\<forall>r \<in> set rs. r = None \<Longrightarrow> attach_images b rs = Inr []"
  by (induction b rs rule: attach_images.induct) simp_all

lemma gemini_request_sent:
  assumes "Gemini_attached net images = Inr pushed"
  shows "GeminiProvider_generateSummary net apiKey content ty title images =
     (Gemini_response (main net),
      map (\<lambda>img. Get (url img)) images @
      [Post (''https://generativelanguage.googleapis.com/v1beta/models/gemini-2.0-flash:generateContent?key='' @ apiKey)
         [(''Content-Type'', ''application/json'')]
         (JObj [(''contents'',
                 JArr [JObj [(''parts'',
                   JArr (JObj [(''text'', JStr (systemPrompt images @ nl @ nl @
                                               userPrompt ty title content))] # pushed))]]),
                (''generationConfig'', JObj [(''temperature'', JNum ''0.5''),
                                             (''maxOutputTokens'', JNum ''1000'')])])])"
  using assms
  by (simp add: GeminiProvider_generateSummary_def Gemini_parts_def Gemini_request_def
        Gemini_apiEndpoint_def Gemini_defaultModel_def)

lemma gemini_images_attached:
  assumes "\<forall>img \<in> set images. \<forall>mimeType.
             fetchImageAsBase64 (fetch_image net (url img)) \<noteq> Some (None, mimeType)"
    and "payload (loaded (map (\<lambda>img. fetchImageAsBase64 (fetch_image net (url img))) images))
           \<le> MAX_IMAGE_PAYLOAD"
  shows "Gemini_attached net images =
     Inr (map (\<lambda>(base64, mimeType).
                 JObj [(''inline_data'', JObj [(''mime_type'', JStr mimeType),
                                               (''data'', JStr base64)])])
            (loaded (map (\<lambda>img. fetchImageAsBase64 (fetch_image net (url img))) images)))"
proof -
  have lit: "inline_data = (\<lambda>(base64, mimeType).
                 JObj [(''inline_data'', JObj [(''mime_type'', JStr mimeType),
                                               (''data'', JStr base64)])])"
    by (auto simp: inline_data_def fun_eq_iff)
  from assms
  have "attach_images 0 (map (\<lambda>img. fetchImageAsBase64 (fetch_image net (url img))) images) =
      Inr (map inline_data
             (loaded (map (\<lambda>img. fetchImageAsBase64 (fetch_image net (url img))) images)))"
    by (intro attach_images_all) auto
  then show ?thesis
    by (cases images) (simp_all add: Gemini_attached_def lit)
qed

lemma gemini_text_only:
  assumes "\<forall>img \<in> set images. fetchImageAsBase64 (fetch_image net (url img)) = None"
  shows "Gemini_attached net images = Inr []"
proof -
  from assms
  have "attach_images 0 (map (\<lambda>img. fetchImageAsBase64 (fetch_image net (url img))) images) =
      Inr []"
    by (intro attach_images_none) simp
  then show ?thesis
    by (simp add: Gemini_attached_def)
qed

text \<open>
  C9 fails on the code for an image that is fetched with success and is empty. Chrome's
  \<^verbatim>\<open>FileReader\<close> gives \<^verbatim>\<open>data:\<close> as the data URL of an empty blob; the result has no
  comma, so \<^verbatim>\<open>split(",")[1]\<close> is undefined and \<^verbatim>\<open>_fetchImageAsBase64\<close> resolves to an
  object without data, which the loop takes for a loaded image: reading the length of
  its data raises a \<open>TypeError\<close>. The call ends before the request is sent, although
  the provider would have answered, and the dispatch reports the generic \<open>UNKNOWN\<close>
  error. With the same answer and an image whose fetch fails, the call returns the
  summary.
\<close>

theorem empty_image_type_error:
  "fetchImageAsBase64 (ImageResponds 200 (Blob ''image/png'' (Loaded ''data:''))) =
     Some (None, ''image/png'') \<and>
   GeminiProvider_generateSummary
     \<lparr>main = Responds 200 (Json (JObj [(''candidates'',
               JArr [JObj [(''content'',
                 JObj [(''parts'', JArr [JObj [(''text'', JStr ''A summary.'')]])])]])])),
      image_at = [(''https://example.org/a.png'',
                   ImageResponds 200 (Blob ''image/png'' (Loaded ''data:'')))]\<rparr>
     ''key'' ''page text'' brief ''title''
     [\<lparr>url = ''https://example.org/a.png'', alt = ''chart''\<rparr>] =
     (Inl (TypeError (undefined_read ''length'')), [Get ''https://example.org/a.png'']) \<and>
   fst (generateSummary
     \<lparr>main = Responds 200 (Json (JObj [(''candidates'',
               JArr [JObj [(''content'',
                 JObj [(''parts'', JArr [JObj [(''text'', JStr ''A summary.'')]])])]])])),
      image_at = [(''https://example.org/a.png'',
                   ImageResponds 200 (Blob ''image/png'' (Loaded ''data:'')))]\<rparr>
     ''gemini'' ''key'' ''page text'' brief ''title''
     [\<lparr>url = ''https://example.org/a.png'', alt = ''chart''\<rparr>]) =
     Inl (Classified \<lparr>type = ''unknown'', userMessage = USER_MESSAGES UNKNOWN,
                      debugInfo = undefined_read ''length''\<rparr>) \<and>
   fst (GeminiProvider_generateSummary
     \<lparr>main = Responds 200 (Json (JObj [(''candidates'',
               JArr [JObj [(''content'',
                 JObj [(''parts'', JArr [JObj [(''text'', JStr ''A summary.'')]])])]])])),
      image_at = [(''https://example.org/a.png'', ImageResponds 404 BlobFails)]\<rparr>
     ''key'' ''page text'' brief ''title''
     [\<lparr>url = ''https://example.org/a.png'', alt = ''chart''\<rparr>]) =
     Inr (Val (JStr ''A summary.''))"
proof -
  let ?answer = "Responds 200 (Json (JObj [(''candidates'',
               JArr [JObj [(''content'',
                 JObj [(''parts'', JArr [JObj [(''text'', JStr ''A summary.'')]])])]])]))"
  let ?net = "\<lparr>main = ?answer,
      image_at = [(''https://example.org/a.png'',
                   ImageResponds 200 (Blob ''image/png'' (Loaded ''data:'')))]\<rparr>"
  let ?imgs = "[\<lparr>url = ''https://example.org/a.png'', alt = ''chart''\<rparr>]"
  have 1: "fetchImageAsBase64 (ImageResponds 200 (Blob ''image/png'' (Loaded ''data:''))) =
     Some (None, ''image/png'')"
    by (simp add: fetchImageAsBase64_def ok_def Let_def)
  then have att: "Gemini_attached ?net ?imgs = Inl (TypeError (undefined_read ''length''))"
    by (simp add: Gemini_attached_def fetch_image_def)
  then have 2: "GeminiProvider_generateSummary ?net ''key'' ''page text'' brief ''title'' ?imgs =
     (Inl (TypeError (undefined_read ''length'')), [Get ''https://example.org/a.png''])"
    by (simp add: GeminiProvider_generateSummary_def Gemini_parts_def)
  have gemini: "providers ''gemini'' = Some (Adapter GeminiProvider)"
    by (simp add: providers_def)
  from att have "attachment_fails GeminiProvider ?net ?imgs"
    by (simp add: attachment_fails_def)
  from dispatch_attachment_fails [OF gemini this]
  have 3: "fst (generateSummary ?net ''gemini'' ''key'' ''page text'' brief ''title'' ?imgs) =
     Inl (Classified \<lparr>type = ''unknown'', userMessage = USER_MESSAGES UNKNOWN,
                      debugInfo = undefined_read ''length''\<rparr>)"
    by simp
  have 4: "fst (GeminiProvider_generateSummary
     \<lparr>main = ?answer, image_at = [(''https://example.org/a.png'', ImageResponds 404 BlobFails)]\<rparr>
     ''key'' ''page text'' brief ''title'' ?imgs) = Inr (Val (JStr ''A summary.''))"
    by (simp add: GeminiProvider_generateSummary_def Gemini_parts_def Gemini_attached_def
          fetch_image_def fetchImageAsBase64_def ok_def Gemini_response_def chain_def)
  from 1 2 3 4 show ?thesis
    by simp
qed

lemma claude_effects:
  "\<exists>rest. snd (generateSummary net ''claude'' k c ty t imgs) =
      SetTimeout 30000 # Invoke (Adapter ClaudeProvider) [] #
      Fetch (Claude_request k c ty t []) # rest"
proof -
  have p: "providers ''claude'' = Some (Adapter ClaudeProvider)"
    by (simp add: providers_def)
  have "call_generateSummary (Adapter ClaudeProvider) net k c ty t
          (if truthy (supportsMultimodal (Adapter ClaudeProvider)) then imgs else []) =
        (Claude_response (main net), [Claude_request k c ty t []])"
    by (simp add: ClaudeProvider_generateSummary_def)
  from dispatch_effects [OF p this] show ?thesis
    by simp
qed

text \<open>
  C10. The Claude object defines no \<open>supportsMultimodal\<close>, so whatever images are
  extracted, a dispatch to \<open>claude\<close> calls the adapter with the empty list and sends
  the request built from it: the user content is the plain prompt text and the system
  prompt has no image hint.
\<close>

theorem claude_text_only:
  "supportsMultimodal (Adapter ClaudeProvider) = Undefined \<and>
   (\<exists>rest. snd (generateSummary net ''claude'' k c ty t imgs) =
      SetTimeout 30000 # Invoke (Adapter ClaudeProvider) [] #
      Fetch (Claude_request k c ty t []) # rest) \<and>
   Claude_userContent ty t c [] = JStr (userPrompt ty t c) \<and>
   systemPrompt [] =
     ''You are a helpful assistant that summarizes web content clearly and concisely.''"
  using claude_effects [of net k c ty t imgs]
  by (simp add: Claude_userContent_def systemPrompt_def)

theorem claude_text_only_witness:
  "\<exists>rest. snd (generateSummary \<lparr>main = Rejects (TypeError ''Failed to fetch''), image_at = []\<rparr>
             ''claude'' ''key'' ''page text'' brief ''title''
             [\<lparr>url = ''https://example.org/a.png'', alt = ''first''\<rparr>]) =
      SetTimeout 30000 # Invoke (Adapter ClaudeProvider) [] #
      Fetch (Claude_request ''key'' ''page text'' brief ''title'' []) # rest"
  using claude_text_only
    [of "\<lparr>main = Rejects (TypeError ''Failed to fetch''), image_at = []\<rparr>"
        "''key''" "''page text''" brief "''title''"
        "[\<lparr>url = ''https://example.org/a.png'', alt = ''first''\<rparr>]"]
  by blast

end
